theory Spec2Isabelle
  imports Complex_Main
begin

section \<open>The RC car data logger \<open>pic_take.py\<close>\<close>

text \<open>
  The program is an acquisition loop around two camera backends. Everything it does is an
  effect on its surroundings, so the model makes the surroundings explicit:
  \<^item> an environment \<open>env\<close> fixes what the outside world answers: the clock reading at every
    step, whether the camera device opens, what each capture returns, at which steps a
    \<open>KeyboardInterrupt\<close> is delivered, and the library functions whose output format is not
    part of the program (\<open>json.dumps\<close>, \<open>isoformat\<close>, \<open>strftime\<close>, \<open>abspath\<close>, PNG encoding);
  \<^item> a \<open>world\<close> is the mutable state: the file system, the write buffer of the open text
    file, how many external calls and captures have been made, and the log of external
    calls (\<open>trace\<close>) in the order they happened;
  \<^item> an exception is the result \<open>Raise x\<close>; the \<open>while True\<close> loops get fuel, and a loop
    that has used its fuel up is still \<open>Running\<close>.

  What the model takes from the surroundings without a way to fail: the imports of
  \<open>picamera2\<close> and \<open>cv2\<close>, the configuration and the start of an opened camera,
  \<open>cv2.imwrite\<close>, and writes to an open file. An interrupt arrives in the place of an
  external call with an effect; the calls without one (\<open>os.path.join\<close>, \<open>cv2.cvtColor\<close>,
  \<open>json.dumps\<close>, \<open>isoformat\<close>, the formatting of names) are functions. Python floats (time
  stamps, \<open>fps\<close>, \<open>seconds\<close>) are exact reals.
\<close>

subsection \<open>Values\<close>

datatype json = JInt int | JFloat real | JStr string | JObj "(string \<times> json) list"

text \<open>A frame is an array of shape \<open>(rows, cols, 3)\<close>.\<close>

datatype frame = Frame (rows: int) (cols: int) (pixels: "(nat \<times> nat \<times> nat) list")

datatype fobj = Dir | File string

datatype exn = KeyboardInterrupt | ZeroDivisionError | RuntimeError string | OSError string
  | CameraError

datatype event =
    EvMakedirs string
  | EvOpen string string
  | EvWrite string
  | EvFlush
  | EvClose
  | EvCamNew
  | EvCamCreateConfig int int
  | EvCamConfigure
  | EvCamStart
  | EvCamStop
  | EvCapOpen int
  | EvCapIsOpened bool
  | EvCapSet
  | EvCapRelease
  | EvTime real
  | EvCapture "frame option"
  | EvImwrite string frame
  | EvSleep real
  | EvPrint string

record env =
  clock :: "nat \<Rightarrow> real"
  sigint :: "nat \<Rightarrow> bool"
  device_ok :: bool
  shots :: "nat \<Rightarrow> frame option"
  dumps :: "json \<Rightarrow> string"
  dumps_indent :: "json \<Rightarrow> string"
  isoformat :: "real \<Rightarrow> string"
  strftime :: "real \<Rightarrow> string"
  abspath :: "string \<Rightarrow> string"
  png :: "frame \<Rightarrow> string"

record world =
  ops :: nat
  captures :: nat
  files :: "string \<rightharpoonup> fobj"
  pending :: string
  trace :: "event list"

datatype 'a res = Ok 'a | Raise exn | Running

type_synonym 'a io = "world \<Rightarrow> 'a res \<times> world"

subsection \<open>Sequencing\<close>

definition ret :: "'a \<Rightarrow> 'a io" where
  "ret x w = (Ok x, w)"

definition raise :: "exn \<Rightarrow> 'a io" where
  "raise x w = (Raise x, w)"

definition io_bind :: "'a io \<Rightarrow> ('a \<Rightarrow> 'b io) \<Rightarrow> 'b io" where
  "io_bind m f w =
     (case m w of
        (Ok a, w') \<Rightarrow> f a w'
      | (Raise x, w') \<Rightarrow> (Raise x, w')
      | (Running, w') \<Rightarrow> (Running, w'))"

definition log :: "event \<Rightarrow> world \<Rightarrow> world" where
  "log ev w = w\<lparr>trace := trace w @ [ev]\<rparr>"

text \<open>
  Every external call is one step. Step number \<open>k\<close> raises \<open>KeyboardInterrupt\<close> instead of
  running when the environment delivers a signal there; otherwise it runs, and is told its
  own number (the clock is read at that number).
\<close>

definition prim :: "env \<Rightarrow> (nat \<Rightarrow> 'a io) \<Rightarrow> 'a io" where
  "prim e act w =
     (if sigint e (ops w) then (Raise KeyboardInterrupt, w\<lparr>ops := Suc (ops w)\<rparr>)
      else act (ops w) (w\<lparr>ops := Suc (ops w)\<rparr>))"

subsection \<open>Library calls\<close>

definition time_time :: "env \<Rightarrow> real io" where
  "time_time e = prim e (\<lambda>k w. (Ok (clock e k), log (EvTime (clock e k)) w))"

definition time_sleep :: "env \<Rightarrow> real \<Rightarrow> unit io" where
  "time_sleep e d = prim e (\<lambda>k w. (Ok (), log (EvSleep d) w))"

definition print :: "env \<Rightarrow> string \<Rightarrow> unit io" where
  "print e s = prim e (\<lambda>k w. (Ok (), log (EvPrint s) w))"

text \<open>
  \<open>os.makedirs(p, exist_ok=True)\<close>: fails only where \<open>p\<close> exists and is not a directory. The
  file system of the model is flat: the parents that the call creates are not recorded.
\<close>

definition makedirs :: "env \<Rightarrow> string \<Rightarrow> unit io" where
  "makedirs e p = prim e (\<lambda>k w.
     (case files w p of
        Some (File s) \<Rightarrow> (Raise (OSError p), w)
      | _ \<Rightarrow> (Ok (), log (EvMakedirs p) (w\<lparr>files := (files w)(p \<mapsto> Dir)\<rparr>))))"

text \<open>
  \<open>open(p, mode)\<close> for the modes \<open>"a"\<close> and \<open>"w"\<close>: a missing file is created empty, \<open>"w"\<close>
  truncates, \<open>"a"\<close> keeps the content; a directory cannot be opened. The handle starts with
  an empty buffer.
\<close>

definition open_file :: "env \<Rightarrow> string \<Rightarrow> string \<Rightarrow> unit io" where
  "open_file e p mode = prim e (\<lambda>k w.
     (case files w p of
        Some Dir \<Rightarrow> (Raise (OSError p), w)
      | Some (File s) \<Rightarrow>
          (Ok (), log (EvOpen p mode)
             (w\<lparr>files := (files w)(p \<mapsto> File (if mode = ''a'' then s else [])), pending := []\<rparr>))
      | None \<Rightarrow>
          (Ok (), log (EvOpen p mode) (w\<lparr>files := (files w)(p \<mapsto> File []), pending := []\<rparr>))))"

definition f_write :: "env \<Rightarrow> string \<Rightarrow> unit io" where
  "f_write e s = prim e (\<lambda>k w. (Ok (), log (EvWrite s) (w\<lparr>pending := pending w @ s\<rparr>)))"

definition content :: "world \<Rightarrow> string \<Rightarrow> string" where
  "content w p = (case files w p of Some (File s) \<Rightarrow> s | _ \<Rightarrow> [])"

definition flushed :: "string \<Rightarrow> world \<Rightarrow> world" where
  "flushed p w = w\<lparr>files := (files w)(p \<mapsto> File (content w p @ pending w)), pending := []\<rparr>"

definition f_flush :: "env \<Rightarrow> string \<Rightarrow> unit io" where
  "f_flush e p = prim e (\<lambda>k w. (Ok (), log EvFlush (flushed p w)))"

text \<open>Closing the handle flushes what is buffered; it is part of leaving the \<open>with\<close> block.\<close>

definition f_close :: "string \<Rightarrow> world \<Rightarrow> world" where
  "f_close p w = log EvClose (flushed p w)"

text \<open>
  \<open>with open(p, mode) as f: body\<close>. The file is closed when the body returns or raises; a
  body that is still running has not left the block.
\<close>

definition with_open :: "env \<Rightarrow> string \<Rightarrow> string \<Rightarrow> 'a io \<Rightarrow> 'a io" where
  "with_open e p mode body w =
     (case open_file e p mode w of
        (Ok u, w1) \<Rightarrow>
          (case body w1 of
             (Running, w2) \<Rightarrow> (Running, w2)
           | (r, w2) \<Rightarrow> (r, f_close p w2))
      | (Raise x, w1) \<Rightarrow> (Raise x, w1)
      | (Running, w1) \<Rightarrow> (Running, w1))"

text \<open>
  \<open>cv2.imwrite(path, img)\<close>. The source discards its result; the model takes the file to
  be written.
\<close>

definition imwrite :: "env \<Rightarrow> string \<Rightarrow> frame \<Rightarrow> unit io" where
  "imwrite e p fr = prim e (\<lambda>k w.
     (Ok (), log (EvImwrite p fr) (w\<lparr>files := (files w)(p \<mapsto> File (png e fr))\<rparr>)))"

text \<open>\<open>cv2.cvtColor(frame, cv2.COLOR_RGB2BGR)\<close> swaps the first and the third channel.\<close>

definition cvtColor_RGB2BGR :: "frame \<Rightarrow> frame" where
  "cvtColor_RGB2BGR fr = Frame (rows fr) (cols fr) (map (\<lambda>(r, g, b). (b, g, r)) (pixels fr))"

text \<open>
  The Picamera2 object: the constructor, which fails when there is no camera,
  \<open>create_video_configuration\<close>, \<open>configure\<close>, \<open>start\<close>, \<open>capture_array\<close>, \<open>stop\<close>.
\<close>

definition Picamera2 :: "env \<Rightarrow> unit io" where
  "Picamera2 e = prim e (\<lambda>k w.
     (if device_ok e then (Ok (), log EvCamNew w) else (Raise CameraError, w)))"

definition cam_create_video_configuration :: "env \<Rightarrow> int \<Rightarrow> int \<Rightarrow> unit io" where
  "cam_create_video_configuration e width height =
     prim e (\<lambda>k w. (Ok (), log (EvCamCreateConfig width height) w))"

definition cam_configure :: "env \<Rightarrow> unit io" where
  "cam_configure e = prim e (\<lambda>k w. (Ok (), log EvCamConfigure w))"

definition cam_start :: "env \<Rightarrow> unit io" where
  "cam_start e = prim e (\<lambda>k w. (Ok (), log EvCamStart w))"

definition cam_stop :: "env \<Rightarrow> unit io" where
  "cam_stop e = prim e (\<lambda>k w. (Ok (), log EvCamStop w))"

text \<open>
  \<open>cam.capture_array()\<close> returns an array or raises: the source checks no status, so a
  failed capture is an exception at this call.
\<close>

definition capture_array :: "env \<Rightarrow> frame io" where
  "capture_array e = prim e (\<lambda>k w.
     (let w1 = log (EvCapture (shots e (captures w))) (w\<lparr>captures := Suc (captures w)\<rparr>)
      in case shots e (captures w) of
           Some fr \<Rightarrow> (Ok fr, w1)
         | None \<Rightarrow> (Raise CameraError, w1)))"

text \<open>The OpenCV capture object. \<open>cap.read()\<close> returns \<open>(ok, frame)\<close>: \<open>None\<close> is \<open>ok = False\<close>.\<close>

definition VideoCapture :: "env \<Rightarrow> int \<Rightarrow> unit io" where
  "VideoCapture e device = prim e (\<lambda>k w. (Ok (), log (EvCapOpen device) w))"

definition cap_isOpened :: "env \<Rightarrow> bool io" where
  "cap_isOpened e = prim e (\<lambda>k w. (Ok (device_ok e), log (EvCapIsOpened (device_ok e)) w))"

definition cap_set :: "env \<Rightarrow> unit io" where
  "cap_set e = prim e (\<lambda>k w. (Ok (), log EvCapSet w))"

definition cap_read :: "env \<Rightarrow> frame option io" where
  "cap_read e = prim e (\<lambda>k w.
     (Ok (shots e (captures w)),
      log (EvCapture (shots e (captures w))) (w\<lparr>captures := Suc (captures w)\<rparr>)))"

definition cap_release :: "env \<Rightarrow> unit io" where
  "cap_release e = prim e (\<lambda>k w. (Ok (), log EvCapRelease w))"

subsection \<open>Pure helpers\<close>

text \<open>Decimal digits of a natural number, most significant first.\<close>

fun dec :: "nat \<Rightarrow> string" where
  "dec n = (if n < 10 then [''0123456789'' ! n]
            else dec (n div 10) @ [''0123456789'' ! (n mod 10)])"

declare dec.simps [simp del]

text \<open>\<open>str(i)\<close> and the format \<open>{i:06d}\<close>: sign, then zeros up to a total width of 6.\<close>

definition str_int :: "int \<Rightarrow> string" where
  "str_int i = (if i < 0 then CHR ''-'' # dec (nat (- i)) else dec (nat i))"

definition fmt06d :: "int \<Rightarrow> string" where
  "fmt06d i =
     (let s = dec (nat \<bar>i\<bar>); sgn = (if i < 0 then ''-'' else [])
      in sgn @ replicate (6 - length sgn - length s) CHR ''0'' @ s)"

text \<open>\<open>os.path.join(a, b)\<close> on a POSIX system.\<close>

definition path_join :: "string \<Rightarrow> string \<Rightarrow> string" where
  "path_join a b =
     (if b \<noteq> [] \<and> hd b = CHR ''/'' then b
      else if a = [] \<or> last a = CHR ''/'' then a @ b
      else a @ ''/'' @ b)"

definition nl :: string where
  "nl = [CHR 0x0A]"

text \<open>\<open>1.0 / fps\<close>.\<close>

definition py_div :: "real \<Rightarrow> real \<Rightarrow> real io" where
  "py_div a b = (if b = 0 then raise ZeroDivisionError else ret (a / b))"

definition ensure_dir :: "env \<Rightarrow> string \<Rightarrow> unit io" where
  "ensure_dir e p = makedirs e p"

text \<open>\<open>datetime.now().strftime("%Y%m%d_%H%M%S")\<close>: one clock reading, formatted.\<close>

definition now_str :: "env \<Rightarrow> string io" where
  "now_str e = prim e (\<lambda>k w. (Ok (strftime e (clock e k)), log (EvTime (clock e k)) w))"

text \<open>The dictionary \<open>rec\<close> of both loops, keys in the order of the source.\<close>

definition rec_dict :: "env \<Rightarrow> int \<Rightarrow> string \<Rightarrow> real \<Rightarrow> int \<Rightarrow> int \<Rightarrow> json" where
  "rec_dict e i fname t w h =
     JObj [(''idx'', JInt i),
           (''file'', JStr (''frames/'' @ fname)),
           (''timestamp_unix'', JFloat t),
           (''timestamp_iso'', JStr (isoformat e t)),
           (''width'', JInt w),
           (''height'', JInt h)]"

subsection \<open>The loops\<close>

text \<open>
  One pass through the body of a \<open>while True\<close> loop either leaves the loop (\<open>break\<close>) or goes
  on to the next pass with the new value of \<open>i\<close>.
\<close>

datatype flow = Break | Next int

fun while_True :: "nat \<Rightarrow> (int \<Rightarrow> flow io) \<Rightarrow> int \<Rightarrow> unit io" where
  "while_True 0 body i w = (Running, w)"
| "while_True (Suc n) body i w =
     (case body i w of
        (Ok (Next i'), w') \<Rightarrow> while_True n body i' w'
      | (Ok Break, w') \<Rightarrow> (Ok (), w')
      | (Raise x, w') \<Rightarrow> (Raise x, w')
      | (Running, w') \<Rightarrow> (Running, w'))"

definition picamera2_body ::
  "env \<Rightarrow> string \<Rightarrow> string \<Rightarrow> real \<Rightarrow> real \<Rightarrow> int \<Rightarrow> int \<Rightarrow> real \<Rightarrow> int \<Rightarrow> flow io" where
  "picamera2_body e frames_dir meta_path period t0 width height seconds i =
     io_bind (time_time e) (\<lambda>t.
       if seconds > 0 \<and> t - t0 \<ge> seconds then ret Break
       else
         io_bind (capture_array e) (\<lambda>fr.
           let fname = fmt06d i @ ''.png'';
               fpath = path_join frames_dir fname;
               frame_bgr = cvtColor_RGB2BGR fr
           in
           io_bind (imwrite e fpath frame_bgr) (\<lambda>_.
           io_bind (f_write e (dumps e (rec_dict e i fname t width height) @ nl)) (\<lambda>_.
           io_bind (f_flush e meta_path) (\<lambda>_.
           io_bind (time_time e) (\<lambda>t2.
             let dt = t2 - t; sleep_t = max 0 (period - dt)
             in io_bind (time_sleep e sleep_t) (\<lambda>_. ret (Next (i + 1)))))))))"

definition picamera2_loop ::
  "env \<Rightarrow> nat \<Rightarrow> string \<Rightarrow> real \<Rightarrow> int \<Rightarrow> int \<Rightarrow> real \<Rightarrow> unit io" where
  "picamera2_loop e n out_dir fps width height seconds =
     (let frames_dir = path_join out_dir ''frames''
      in io_bind (ensure_dir e frames_dir) (\<lambda>_.
         let meta_path = path_join out_dir ''meta.jsonl''
         in io_bind (Picamera2 e) (\<lambda>_.
            io_bind (cam_create_video_configuration e width height) (\<lambda>_.
            io_bind (cam_configure e) (\<lambda>_.
            io_bind (cam_start e) (\<lambda>_.
            io_bind (py_div 1 fps) (\<lambda>period.
            io_bind (time_time e) (\<lambda>t0.
            io_bind
              (with_open e meta_path ''a''
                 (while_True n
                    (picamera2_body e frames_dir meta_path period t0 width height seconds) 0))
              (\<lambda>_. cam_stop e)))))))))"

definition opencv_body ::
  "env \<Rightarrow> string \<Rightarrow> string \<Rightarrow> real \<Rightarrow> real \<Rightarrow> real \<Rightarrow> int \<Rightarrow> flow io" where
  "opencv_body e frames_dir meta_path period t0 seconds i =
     io_bind (time_time e) (\<lambda>t.
       if seconds > 0 \<and> t - t0 \<ge> seconds then ret Break
       else
         io_bind (cap_read e) (\<lambda>r.
           case r of
             None \<Rightarrow> io_bind (print e ''Frame read failed, stopping.'') (\<lambda>_. ret Break)
           | Some frame_bgr \<Rightarrow>
               let fname = fmt06d i @ ''.png'';
                   fpath = path_join frames_dir fname
               in
               io_bind (imwrite e fpath frame_bgr) (\<lambda>_.
               let h = rows frame_bgr; w = cols frame_bgr
               in
               io_bind (f_write e (dumps e (rec_dict e i fname t w h) @ nl)) (\<lambda>_.
               io_bind (f_flush e meta_path) (\<lambda>_.
               io_bind (time_time e) (\<lambda>t2.
                 let dt = t2 - t
                 in io_bind (time_sleep e (max 0 (period - dt))) (\<lambda>_. ret (Next (i + 1)))))))))"

definition opencv_loop ::
  "env \<Rightarrow> nat \<Rightarrow> string \<Rightarrow> real \<Rightarrow> int \<Rightarrow> int \<Rightarrow> int \<Rightarrow> real \<Rightarrow> unit io" where
  "opencv_loop e n out_dir fps device width height seconds =
     (let frames_dir = path_join out_dir ''frames''
      in io_bind (ensure_dir e frames_dir) (\<lambda>_.
         let meta_path = path_join out_dir ''meta.jsonl''
         in io_bind (VideoCapture e device) (\<lambda>_.
            io_bind (cap_isOpened e) (\<lambda>opened.
              if \<not> opened
              then raise (RuntimeError (''Could not open camera device '' @ str_int device))
              else
                io_bind (cap_set e) (\<lambda>_.
                io_bind (cap_set e) (\<lambda>_.
                io_bind (py_div 1 fps) (\<lambda>period.
                io_bind (time_time e) (\<lambda>t0.
                io_bind
                  (with_open e meta_path ''a''
                     (while_True n (opencv_body e frames_dir meta_path period t0 seconds) 0))
                  (\<lambda>_. cap_release e)))))))))"

subsection \<open>The entry point\<close>

datatype backend = BPicamera2 | BOpencv

record args =
  out :: string
  fps :: real
  width :: int
  height :: int
  seconds :: real
  backend :: backend
  device :: int

definition backend_name :: "backend \<Rightarrow> string" where
  "backend_name b = (case b of BPicamera2 \<Rightarrow> ''picamera2'' | BOpencv \<Rightarrow> ''opencv'')"

text \<open>
  \<open>try: body  except KeyboardInterrupt: handler  finally: final\<close>. An exception of the
  handler or of the final block replaces the one in flight.
\<close>

definition try_except_finally :: "unit io \<Rightarrow> unit io \<Rightarrow> unit io \<Rightarrow> unit io" where
  "try_except_finally body handler final w =
     (case body w of
        (Running, w1) \<Rightarrow> (Running, w1)
      | (r, w1) \<Rightarrow>
          (case (if r = Raise KeyboardInterrupt then handler w1 else (r, w1)) of
             (Running, w2) \<Rightarrow> (Running, w2)
           | (r2, w2) \<Rightarrow>
               (case final w2 of
                  (Ok u, w3) \<Rightarrow> (r2, w3)
                | (r3, w3) \<Rightarrow> (r3, w3))))"

text \<open>The dictionary \<open>header\<close> of \<open>main\<close>.\<close>

definition run_header :: "args \<Rightarrow> string \<Rightarrow> json" where
  "run_header a created =
     JObj [(''created'', JStr created),
           (''backend'', JStr (backend_name (backend a))),
           (''fps'', JFloat (fps a)),
           (''width'', JInt (width a)),
           (''height'', JInt (height a)),
           (''seconds'', JFloat (seconds a)),
           (''device'', JInt (device a))]"

text \<open>
  \<open>main\<close> after \<open>parse_args\<close>. \<open>json.dump\<close> hands the document to \<open>f.write\<close> in pieces; the
  model hands it over in one.
\<close>

definition main :: "env \<Rightarrow> nat \<Rightarrow> args \<Rightarrow> unit io" where
  "main e n a =
     (let out_dir = out a
      in io_bind (ensure_dir e out_dir) (\<lambda>_.
         io_bind (now_str e) (\<lambda>created.
         let header = run_header a created
         in io_bind
              (with_open e (path_join out_dir ''run_header.json'') ''w''
                 (f_write e (dumps_indent e header)))
              (\<lambda>_.
                try_except_finally
                  (if backend a = BPicamera2
                   then picamera2_loop e n out_dir (fps a) (width a) (height a) (seconds a)
                   else opencv_loop e n out_dir (fps a) (device a) (width a) (height a)
                          (seconds a))
                  (print e (nl @ ''Stopped by user (Ctrl+C).''))
                  (print e (''Saved frames under: '' @ abspath e out_dir))))))"

subsection \<open>Observing a run\<close>

text \<open>
  The external calls made between two states, oldest first, and what they wrote: the
  strings handed to \<open>f.write\<close>, the images handed to \<open>cv2.imwrite\<close>, the clock readings,
  the sleeps, the frames captured, the files opened.
\<close>

definition events :: "world \<Rightarrow> world \<Rightarrow> event list" where
  "events w w' = drop (length (trace w)) (trace w')"

fun written :: "event list \<Rightarrow> string list" where
  "written [] = []"
| "written (EvWrite s # evs) = s # written evs"
| "written (ev # evs) = written evs"

fun saved :: "event list \<Rightarrow> (string \<times> frame) list" where
  "saved [] = []"
| "saved (EvImwrite p fr # evs) = (p, fr) # saved evs"
| "saved (ev # evs) = saved evs"

fun times :: "event list \<Rightarrow> real list" where
  "times [] = []"
| "times (EvTime t # evs) = t # times evs"
| "times (ev # evs) = times evs"

fun slept :: "event list \<Rightarrow> real list" where
  "slept [] = []"
| "slept (EvSleep d # evs) = d # slept evs"
| "slept (ev # evs) = slept evs"

fun captured :: "event list \<Rightarrow> frame list" where
  "captured [] = []"
| "captured (EvCapture (Some fr) # evs) = fr # captured evs"
| "captured (ev # evs) = captured evs"

fun opened :: "event list \<Rightarrow> (string \<times> string) list" where
  "opened [] = []"
| "opened (EvOpen p m # evs) = (p, m) # opened evs"
| "opened (ev # evs) = opened evs"

text \<open>
  \<open>kept conv evs\<close>: the images saved are the frames captured, in order and converted by
  \<open>conv\<close>; at most the last captured frame is not saved (yet).
\<close>

definition kept :: "(frame \<Rightarrow> frame) \<Rightarrow> event list \<Rightarrow> bool" where
  "kept conv evs \<longleftrightarrow>
     map conv (captured evs) = map snd (saved evs) \<or>
     (\<exists>fr. map conv (captured evs) = map snd (saved evs) @ [fr])"

fun fields :: "json \<Rightarrow> (string \<times> json) list" where
  "fields (JObj kvs) = kvs"
| "fields j = []"

text \<open>The line of \<open>meta.jsonl\<close> for frame number \<open>k\<close>.\<close>

definition line :: "env \<Rightarrow> int \<Rightarrow> real \<Rightarrow> int \<Rightarrow> int \<Rightarrow> string" where
  "line e k t wd ht = dumps e (rec_dict e k (fmt06d k @ ''.png'') t wd ht) @ nl"

definition is_line :: "env \<Rightarrow> int \<Rightarrow> string \<Rightarrow> bool" where
  "is_line e k s \<longleftrightarrow> (\<exists>t wd ht. s = line e k t wd ht)"

text \<open>\<open>numbered P i xs\<close>: the elements of \<open>xs\<close> satisfy \<open>P i\<close>, \<open>P (i + 1)\<close>, ... in turn.\<close>

fun numbered :: "(int \<Rightarrow> 'a \<Rightarrow> bool) \<Rightarrow> int \<Rightarrow> 'a list \<Rightarrow> bool" where
  "numbered P i [] = True"
| "numbered P i (x # xs) = (P i x \<and> numbered P (i + 1) xs)"

text \<open>
  \<open>seq_ok e fd i evs\<close>: the lines written are those of the frames \<open>i\<close>, \<open>i + 1\<close>, ..., the images
  are saved under the names of these numbers in \<open>fd\<close>, and every line follows its image.
\<close>

definition seq_ok :: "env \<Rightarrow> string \<Rightarrow> int \<Rightarrow> event list \<Rightarrow> bool" where
  "seq_ok e fd i evs \<longleftrightarrow>
     numbered (is_line e) i (written evs) \<and>
     numbered (\<lambda>k pf. fst pf = path_join fd (fmt06d k @ ''.png'')) i (saved evs) \<and>
     length (written evs) \<le> length (saved evs) \<and>
     length (saved evs) \<le> Suc (length (written evs))"

text \<open>
  \<open>hist_all ok h evs\<close> checks every event of \<open>evs\<close> against the events before it: \<open>ok\<close> is
  given the earlier events, latest first (\<open>h\<close> holds those before \<open>evs\<close>), and the event.
\<close>

fun hist_all :: "(event list \<Rightarrow> event \<Rightarrow> bool) \<Rightarrow> event list \<Rightarrow> event list \<Rightarrow> bool" where
  "hist_all ok h [] = True"
| "hist_all ok h (ev # evs) = (ok h ev \<and> hist_all ok (ev # h) evs)"

text \<open>
  A capture attempt is allowed when the call just before it was a clock reading \<open>t\<close> with
  \<open>t < t0 + secs\<close>.
\<close>

definition capture_ok :: "real \<Rightarrow> real \<Rightarrow> event list \<Rightarrow> event \<Rightarrow> bool" where
  "capture_ok t0 secs h ev =
     (case ev of
        EvCapture c \<Rightarrow> (case h of EvTime t # h' \<Rightarrow> t < t0 + secs | _ \<Rightarrow> False)
      | _ \<Rightarrow> True)"

text \<open>
  A sleep is allowed as the last call of a complete cycle: clock reading \<open>t\<close>, successful
  capture, \<open>imwrite\<close> of that frame (after the conversion \<open>conv\<close>), \<open>write\<close>, \<open>flush\<close>, clock
  reading \<open>t2\<close>; and its duration has to be \<open>max(0, p - (t2 - t))\<close>.
\<close>

definition sleep_ok :: "real \<Rightarrow> (frame \<Rightarrow> frame) \<Rightarrow> event list \<Rightarrow> event \<Rightarrow> bool" where
  "sleep_ok p conv h ev =
     (case ev of
        EvSleep d \<Rightarrow>
          (case h of
             EvTime t2 # EvFlush # EvWrite s # EvImwrite q g # EvCapture (Some fr) # EvTime t # h' \<Rightarrow>
               g = conv fr \<and> d = max 0 (p - (t2 - t))
           | _ \<Rightarrow> False)
      | _ \<Rightarrow> True)"

text \<open>What follows a \<open>write\<close> is the \<open>flush\<close> (or the close of the file, which flushes).\<close>

definition flush_ok :: "event list \<Rightarrow> event \<Rightarrow> bool" where
  "flush_ok h ev =
     (case h of EvWrite s # h' \<Rightarrow> ev = EvFlush \<or> ev = EvClose | _ \<Rightarrow> True)"

text \<open>
  The calls a loop function makes before it opens \<open>meta.jsonl\<close>, and what lets it get as far
  as the \<open>while\<close> loop: no interrupt during its first \<open>k\<close> calls, a camera that opens, a
  non-zero rate, no plain file in the place of the frame directory and no directory in the
  place of \<open>meta.jsonl\<close>. \<open>started\<close> is the state in which the loop is then entered.
\<close>

fun is_setup :: "event \<Rightarrow> bool" where
  "is_setup (EvMakedirs p) = True"
| "is_setup EvCamNew = True"
| "is_setup (EvCamCreateConfig a b) = True"
| "is_setup EvCamConfigure = True"
| "is_setup EvCamStart = True"
| "is_setup (EvCapOpen d) = True"
| "is_setup (EvCapIsOpened b) = True"
| "is_setup EvCapSet = True"
| "is_setup (EvTime t) = True"
| "is_setup ev = False"

definition setup_ok :: "env \<Rightarrow> nat \<Rightarrow> real \<Rightarrow> string \<Rightarrow> world \<Rightarrow> bool" where
  "setup_ok e k rate out_dir w \<longleftrightarrow>
     (\<forall>j<k. \<not> sigint e (ops w + j)) \<and> device_ok e \<and> rate \<noteq> 0 \<and>
     (\<forall>s. files w (path_join out_dir ''frames'') \<noteq> Some (File s)) \<and>
     files w (path_join out_dir ''meta.jsonl'') \<noteq> Some Dir"

definition started :: "nat \<Rightarrow> string \<Rightarrow> event list \<Rightarrow> world \<Rightarrow> world" where
  "started k out_dir evs w =
     w\<lparr>ops := ops w + k,
       files := (files w)(path_join out_dir ''frames'' \<mapsto> Dir,
                          path_join out_dir ''meta.jsonl'' \<mapsto>
                            File (content w (path_join out_dir ''meta.jsonl''))),
       pending := [],
       trace := trace w @ evs @ [EvOpen (path_join out_dir ''meta.jsonl'') ''a'']\<rparr>"

subsection \<open>A concrete run\<close>

text \<open>
  A camera that delivers two frames of 3 by 2 pixels and fails on the third call, a clock
  that advances by 10 ms per call, no interrupt, an empty file system. The stand-in for
  \<open>json.dumps\<close> prints the keys of an object, and the values that are integers.
\<close>

definition demo_frame :: frame where
  "demo_frame = Frame 2 3 [(1, 2, 3), (4, 5, 6), (7, 8, 9), (1, 2, 3), (4, 5, 6), (7, 8, 9)]"

definition demo_dumps :: "json \<Rightarrow> string" where
  "demo_dumps j =
     concat (map (\<lambda>(k, v). k @ (case v of JInt i \<Rightarrow> ''='' @ str_int i | _ \<Rightarrow> []) @ '';'')
               (fields j))"

definition demo_env :: env where
  "demo_env =
     \<lparr>clock = (\<lambda>k. real k / 100),
      sigint = (\<lambda>k. False),
      device_ok = True,
      shots = (\<lambda>k. if k < 2 then Some demo_frame else None),
      dumps = demo_dumps,
      dumps_indent = demo_dumps,
      isoformat = (\<lambda>t. ''1970-01-01T00:00:00''),
      strftime = (\<lambda>t. ''19700101_000000''),
      abspath = (\<lambda>p. ''/home/pi/'' @ p),
      png = (\<lambda>fr. ''PNG'')\<rparr>"

definition demo_world :: world where
  "demo_world = \<lparr>ops = 0, captures = 0, files = Map.empty, pending = [], trace = []\<rparr>"

text \<open>The same, started in a directory whose \<open>meta.jsonl\<close> holds two lines of an earlier run.\<close>

definition demo_rerun_world :: world where
  "demo_rerun_world =
     demo_world\<lparr>files := [''run/meta.jsonl'' \<mapsto> File (''earlier 0'' @ nl @ ''earlier 1'' @ nl)]\<rparr>"

definition demo_args :: "backend \<Rightarrow> real \<Rightarrow> args" where
  "demo_args b secs =
     \<lparr>out = ''run'', fps = 10, width = 1280, height = 720, seconds = secs, backend = b,
      device = 0\<rparr>"

section \<open>Basic facts\<close>

text \<open>
  The definitions of the external calls, unfolded together when one pass of a loop is
  executed symbolically.
\<close>

lemmas io_defs = io_bind_def ret_def raise_def prim_def log_def time_time_def time_sleep_def print_def
  makedirs_def open_file_def f_write_def f_flush_def f_close_def flushed_def content_def with_open_def imwrite_def
  Picamera2_def cam_create_video_configuration_def cam_configure_def cam_start_def cam_stop_def capture_array_def VideoCapture_def
  cap_isOpened_def cap_set_def cap_read_def cap_release_def py_div_def ensure_dir_def now_str_def

subsection \<open>Observations of a trace\<close>

lemma written_append [simp]: "written (xs @ ys) = written xs @ written ys"
  by (induction xs rule: written.induct) simp_all

lemma saved_append [simp]: "saved (xs @ ys) = saved xs @ saved ys"
  by (induction xs rule: saved.induct) simp_all

lemma times_append [simp]: "times (xs @ ys) = times xs @ times ys"
  by (induction xs rule: times.induct) simp_all

lemma slept_append [simp]: "slept (xs @ ys) = slept xs @ slept ys"
  by (induction xs rule: slept.induct) simp_all

lemma captured_append [simp]: "captured (xs @ ys) = captured xs @ captured ys"
  by (induction xs rule: captured.induct) simp_all

lemma opened_append [simp]: "opened (xs @ ys) = opened xs @ opened ys"
  by (induction xs rule: opened.induct) simp_all

lemma events_append: "trace w' = trace w @ evs \<Longrightarrow> events w w' = evs"
  by (simp add: events_def)

lemma ex_events:
  "\<exists>evs. trace w' = trace w @ evs \<and> P evs \<Longrightarrow> trace w' = trace w @ events w w' \<and> P (events w w')"
  by (auto simp: events_def)

lemma events_demo: "events demo_world w = trace w"
  by (simp add: events_def demo_world_def)

lemma hist_all_append [simp]:
  "hist_all ok h (xs @ ys) \<longleftrightarrow> hist_all ok h xs \<and> hist_all ok (rev xs @ h) ys"
  by (induction xs arbitrary: h) auto

lemma numbered_nth: "numbered P i xs \<longleftrightarrow> (\<forall>k<length xs. P (i + int k) (xs ! k))"
proof (induction xs arbitrary: i)
  case Nil
  then show ?case by simp
next
  case (Cons x xs)
  have "(\<forall>k<Suc (length xs). P (i + int k) ((x # xs) ! k)) \<longleftrightarrow>
        P i x \<and> (\<forall>k<length xs. P (i + 1 + int k) (xs ! k))"
    by (auto simp: less_Suc_eq_0_disj add.assoc)
  with Cons show ?case by simp
qed

lemma is_lineI [simp]: "is_line e k (dumps e (rec_dict e k (fmt06d k @ ''.png'') t wd ht) @ nl)"
  unfolding is_line_def line_def by blast

lemma keptI: "kept conv evs \<Longrightarrow> kept conv (EvTime t # EvCapture (Some fr) # EvImwrite p (conv fr) # evs)"
  by (auto simp: kept_def)

subsection \<open>File names\<close>



lemma fmt06d_0: "fmt06d 0 = ''000000''"
  by code_simp

lemma path_join_last: "b \<noteq> [] \<Longrightarrow> last (path_join a b) = last b"
  by (auto simp: path_join_def)

lemma meta_ne_frames [simp]:
  "path_join out_dir ''meta.jsonl'' \<noteq> path_join out_dir ''frames''"
  "path_join out_dir ''frames'' \<noteq> path_join out_dir ''meta.jsonl''"
  using path_join_last[of "''meta.jsonl''" out_dir] path_join_last[of "''frames''" out_dir]
  by auto

lemma png_ne_meta [simp]:
  "path_join fd (fmt06d i @ ''.png'') \<noteq> path_join out_dir ''meta.jsonl''"
  using path_join_last[of "''meta.jsonl''" out_dir] path_join_last[of "fmt06d i @ ''.png''" fd]
  by auto

lemma path_join_ne [simp]:
  "path_join a ''frames'' \<noteq> a" "path_join a ''run_header.json'' \<noteq> a"
  "a \<noteq> path_join a ''frames''" "a \<noteq> path_join a ''run_header.json''"
  by (auto simp: path_join_def)

lemma header_ne_frames [simp]:
  "path_join out_dir ''run_header.json'' \<noteq> path_join out_dir ''frames''"
  "path_join out_dir ''frames'' \<noteq> path_join out_dir ''run_header.json''"
  using path_join_last[of "''run_header.json''" out_dir] path_join_last[of "''frames''" out_dir]
  by auto

subsection \<open>Calls that set up a run\<close>

text \<open>
  The calls before the \<open>while\<close> loop write nothing, capture nothing and do not sleep.
\<close>

lemma setup_nothing:
  "list_all is_setup pre \<Longrightarrow>
     written pre = [] \<and> saved pre = [] \<and> captured pre = [] \<and> slept pre = [] \<and> opened pre = []"
  by (induction pre rule: written.induct) simp_all

lemma setup_capture_ok: "list_all is_setup pre \<Longrightarrow> hist_all (capture_ok t0 secs) h pre"
  by (induction pre arbitrary: h rule: written.induct) (simp_all add: capture_ok_def)

lemma setup_sleep_ok: "list_all is_setup pre \<Longrightarrow> hist_all (sleep_ok p conv) h pre"
  by (induction pre arbitrary: h rule: written.induct) (simp_all add: sleep_ok_def)

lemma setup_flush_ok:
  "list_all is_setup pre \<Longrightarrow> \<forall>s h'. h \<noteq> EvWrite s # h' \<Longrightarrow> hist_all flush_ok h pre"
  by (induction pre arbitrary: h rule: written.induct)
     (auto simp: flush_ok_def split: list.splits event.splits)

lemma makedirs_ok:
  "\<not> sigint e (ops w) \<Longrightarrow> \<forall>s. files w p \<noteq> Some (File s) \<Longrightarrow>
   makedirs e p w =
     (Ok (), w\<lparr>ops := Suc (ops w), files := (files w)(p \<mapsto> Dir), trace := trace w @ [EvMakedirs p]\<rparr>)"
  by (auto simp: makedirs_def prim_def log_def split: option.splits fobj.splits)

lemma open_w_ok:
  "\<not> sigint e (ops w) \<Longrightarrow> files w p \<noteq> Some Dir \<Longrightarrow>
   open_file e p ''w'' w =
     (Ok (), w\<lparr>ops := Suc (ops w), files := (files w)(p \<mapsto> File []), pending := [],
              trace := trace w @ [EvOpen p ''w'']\<rparr>)"
  by (auto simp: open_file_def prim_def log_def split: option.splits fobj.splits)

section \<open>The while loop\<close>

text \<open>
  A property \<open>P i r w w'\<close> of a run of the loop from counter \<open>i\<close> and state \<open>w\<close> to result
  \<open>r\<close> and state \<open>w'\<close> holds when it holds of the run that makes no pass, is passed on backwards
  by a pass that continues, and holds of a single pass that leaves the loop or raises.
\<close>

lemma while_True_rule:
  assumes "while_True n body i w = (r, w')"
    and "\<And>i w. P i Running w w"
    and "\<And>i w i' w1 r w'. body i w = (Ok (Next i'), w1) \<Longrightarrow> P i' r w1 w' \<Longrightarrow> P i r w w'"
    and "\<And>i w w'. body i w = (Ok Break, w') \<Longrightarrow> P i (Ok ()) w w'"
    and "\<And>i w x w'. body i w = (Raise x, w') \<Longrightarrow> P i (Raise x) w w'"
    and "\<And>i w w'. body i w = (Running, w') \<Longrightarrow> P i Running w w'"
  shows "P i r w w'"
  using assms(1)
proof (induction n arbitrary: i w)
  case 0
  then show ?case using assms(2) by simp
next
  case (Suc n)
  obtain rb wb where b: "body i w = (rb, wb)" by (cases "body i w")
  show ?case
  proof (cases rb)
    case (Ok fl)
    show ?thesis
    proof (cases fl)
      case Break
      with Ok b Suc.prems assms(4) show ?thesis by auto
    next
      case (Next i')
      with Ok b Suc.prems have "while_True n body i' wb = (r, w')" by simp
      from Suc.IH[OF this] have "P i' r wb w'" .
      with assms(3) b Ok Next show ?thesis by blast
    qed
  next
    case (Raise x)
    with b Suc.prems assms(5) show ?thesis by auto
  next
    case Running
    with b Suc.prems assms(6) show ?thesis by auto
  qed
qed

text \<open>
  When every pass continues, the loop is still running after any number of passes, and
  has saved one image per pass.
\<close>

lemma while_True_live:
  assumes "\<And>i w. \<exists>w1 evs. body i w = (Ok (Next (i + 1)), w1) \<and>
           trace w1 = trace w @ evs \<and> length (saved evs) = 1"
  shows "\<exists>w' evs. while_True n body i w = (Running, w') \<and> trace w' = trace w @ evs \<and>
           length (saved evs) = n"
proof (induction n arbitrary: i w)
  case 0
  then show ?case by simp
next
  case (Suc n)
  from assms[of i w] obtain w1 evs1 where b: "body i w = (Ok (Next (i + 1)), w1)"
    "trace w1 = trace w @ evs1" "length (saved evs1) = 1" by blast
  from Suc[of "i + 1" w1] obtain w' evs where
    "while_True n body (i + 1) w1 = (Running, w')" "trace w' = trace w1 @ evs" "length (saved evs) = n"
    by blast
  with b show ?case by (intro exI[of _ w'] exI[of _ "evs1 @ evs"]) simp
qed

lemma while_True_numeral:
  "while_True (numeral k) body i w =
     (case body i w of
        (Ok (Next i'), w') \<Rightarrow> while_True (pred_numeral k) body i' w'
      | (Ok Break, w') \<Rightarrow> (Ok (), w')
      | (Raise x, w') \<Rightarrow> (Raise x, w')
      | (Running, w') \<Rightarrow> (Running, w'))"
  by (simp add: numeral_eq_Suc)

subsection \<open>Numbering of lines and images\<close>

lemma picamera2_while_seq:
  assumes "while_True n (picamera2_body e fd mp period t0 wd ht secs) i w = (r, w')"
  shows "\<exists>evs. trace w' = trace w @ evs \<and> seq_ok e fd i evs"
  apply (rule while_True_rule[OF assms, where P = "\<lambda>i r w w'. \<exists>evs. trace w' = trace w @ evs \<and> seq_ok e fd i evs"])
  subgoal by (simp add: seq_ok_def)
  subgoal for i w i' w1 r w'
    by (auto simp: picamera2_body_def io_defs seq_ok_def Let_def split: if_splits option.splits)
  subgoal by (auto simp: picamera2_body_def io_defs seq_ok_def Let_def split: if_splits option.splits)
  subgoal by (auto simp: picamera2_body_def io_defs seq_ok_def Let_def split: if_splits option.splits)
  subgoal by (auto simp: picamera2_body_def io_defs seq_ok_def Let_def split: if_splits option.splits)
  done

lemma opencv_while_seq:
  assumes "while_True n (opencv_body e fd mp period t0 secs) i w = (r, w')"
  shows "\<exists>evs. trace w' = trace w @ evs \<and> seq_ok e fd i evs"
  apply (rule while_True_rule[OF assms, where P = "\<lambda>i r w w'. \<exists>evs. trace w' = trace w @ evs \<and> seq_ok e fd i evs"])
  subgoal by (simp add: seq_ok_def)
  subgoal for i w i' w1 r w'
    by (auto simp: opencv_body_def io_defs seq_ok_def Let_def split: if_splits option.splits)
  subgoal by (auto simp: opencv_body_def io_defs seq_ok_def Let_def split: if_splits option.splits)
  subgoal by (auto simp: opencv_body_def io_defs seq_ok_def Let_def split: if_splits option.splits)
  subgoal by (auto simp: opencv_body_def io_defs seq_ok_def Let_def split: if_splits option.splits)
  done

subsection \<open>The duration check\<close>



lemma picamera2_while_Ok:
  assumes "while_True n (picamera2_body e fd mp period t0 wd ht secs) i w = (r, w')"
  shows "r = Ok () \<longrightarrow> (\<exists>evs t. trace w' = trace w @ evs @ [EvTime t] \<and> 0 < secs \<and> secs \<le> t - t0)"
  apply (rule while_True_rule[OF assms(1), where P = "\<lambda>i r w w'. r = Ok () \<longrightarrow> (\<exists>evs t. trace w' = trace w @ evs @ [EvTime t] \<and> 0 < secs \<and> secs \<le> t - t0)"])
      apply (auto simp: picamera2_body_def io_defs Let_def split: if_splits option.splits)
  done

lemma opencv_while_Ok:
  assumes "while_True n (opencv_body e fd mp period t0 secs) i w = (r, w')"
  shows "r = Ok () \<longrightarrow> (\<exists>evs. trace w' = trace w @ evs \<and>
           (EvCapture None \<in> set evs \<or> (\<exists>evs' t. evs = evs' @ [EvTime t] \<and> 0 < secs \<and> secs \<le> t - t0)))"
  apply (rule while_True_rule[OF assms(1), where P = "\<lambda>i r w w'. r = Ok () \<longrightarrow> (\<exists>evs. trace w' = trace w @ evs \<and>
           (EvCapture None \<in> set evs \<or> (\<exists>evs' t. evs = evs' @ [EvTime t] \<and> 0 < secs \<and> secs \<le> t - t0)))"])
      apply (auto simp: opencv_body_def io_defs Let_def split: if_splits option.splits)
  done

subsection \<open>The sleep at the end of a pass\<close>

lemma picamera2_while_sleep:
  assumes "while_True n (picamera2_body e fd mp period t0 wd ht secs) i w = (r, w')"
  shows "\<exists>evs. trace w' = trace w @ evs \<and> (\<forall>h. hist_all (sleep_ok period cvtColor_RGB2BGR) h evs)"
  apply (rule while_True_rule[OF assms(1), where P = "\<lambda>i r w w'. \<exists>evs. trace w' = trace w @ evs \<and> (\<forall>h. hist_all (sleep_ok period cvtColor_RGB2BGR) h evs)"])
      apply (auto simp: picamera2_body_def io_defs sleep_ok_def Let_def split: if_splits option.splits)
  done

lemma opencv_while_sleep:
  assumes "while_True n (opencv_body e fd mp period t0 secs) i w = (r, w')"
  shows "\<exists>evs. trace w' = trace w @ evs \<and> (\<forall>h. hist_all (sleep_ok period (\<lambda>fr. fr)) h evs)"
  apply (rule while_True_rule[OF assms(1), where P = "\<lambda>i r w w'. \<exists>evs. trace w' = trace w @ evs \<and> (\<forall>h. hist_all (sleep_ok period (\<lambda>fr. fr)) h evs)"])
      apply (auto simp: opencv_body_def io_defs sleep_ok_def Let_def split: if_splits option.splits)
  done

lemma picamera2_while_kept:
  assumes "while_True n (picamera2_body e fd mp period t0 wd ht secs) i w = (r, w')"
  shows "\<exists>evs. trace w' = trace w @ evs \<and> kept cvtColor_RGB2BGR evs"
  apply (rule while_True_rule[OF assms(1), where P = "\<lambda>i r w w'. \<exists>evs. trace w' = trace w @ evs \<and> kept cvtColor_RGB2BGR evs"])
      apply (auto simp: picamera2_body_def io_defs kept_def Let_def split: if_splits option.splits)
  done

lemma opencv_while_kept:
  assumes "while_True n (opencv_body e fd mp period t0 secs) i w = (r, w')"
  shows "\<exists>evs. trace w' = trace w @ evs \<and> kept (\<lambda>fr. fr) evs"
  apply (rule while_True_rule[OF assms(1), where P = "\<lambda>i r w w'. \<exists>evs. trace w' = trace w @ evs \<and> kept (\<lambda>fr. fr) evs"])
      apply (auto simp: opencv_body_def io_defs kept_def Let_def split: if_splits option.splits)
  done

lemma picamera2_while_sleeps:
  assumes "while_True n (picamera2_body e fd mp period t0 wd ht secs) i w = (r, w')"
  shows "\<exists>evs. trace w' = trace w @ evs \<and> length (slept evs) \<le> length (written evs) \<and>
           length (written evs) \<le> Suc (length (slept evs))"
  apply (rule while_True_rule[OF assms(1), where P = "\<lambda>i r w w'. \<exists>evs. trace w' = trace w @ evs \<and>
           length (slept evs) \<le> length (written evs) \<and>
           length (written evs) \<le> Suc (length (slept evs))"])
      apply (auto simp: picamera2_body_def io_defs Let_def split: if_splits option.splits)
  done

lemma opencv_while_sleeps:
  assumes "while_True n (opencv_body e fd mp period t0 secs) i w = (r, w')"
  shows "\<exists>evs. trace w' = trace w @ evs \<and> length (slept evs) \<le> length (written evs) \<and>
           length (written evs) \<le> Suc (length (slept evs))"
  apply (rule while_True_rule[OF assms(1), where P = "\<lambda>i r w w'. \<exists>evs. trace w' = trace w @ evs \<and>
           length (slept evs) \<le> length (written evs) \<and>
           length (written evs) \<le> Suc (length (slept evs))"])
      apply (auto simp: opencv_body_def io_defs Let_def split: if_splits option.splits)
  done

subsection \<open>The metadata file\<close>

lemma picamera2_while_content:
  assumes "while_True n (picamera2_body e fd mp period t0 wd ht secs) i w = (r, w')"
    and "\<And>i. path_join fd (fmt06d i @ ''.png'') \<noteq> mp"
  shows "\<exists>evs. trace w' = trace w @ evs \<and>
           content w' mp @ pending w' = content w mp @ pending w @ concat (written evs) \<and>
           (r = Running \<and> pending w = [] \<longrightarrow> pending w' = [])"
  apply (rule while_True_rule[OF assms(1), where P = "\<lambda>i r w w'. \<exists>evs. trace w' = trace w @ evs \<and>
           content w' mp @ pending w' = content w mp @ pending w @ concat (written evs) \<and>
           (r = Running \<and> pending w = [] \<longrightarrow> pending w' = [])"])
  using assms(2)
      apply (auto simp: picamera2_body_def io_defs Let_def split: if_splits option.splits fobj.splits)
  done

lemma opencv_while_content:
  assumes "while_True n (opencv_body e fd mp period t0 secs) i w = (r, w')"
    and "\<And>i. path_join fd (fmt06d i @ ''.png'') \<noteq> mp"
  shows "\<exists>evs. trace w' = trace w @ evs \<and>
           content w' mp @ pending w' = content w mp @ pending w @ concat (written evs) \<and>
           (r = Running \<and> pending w = [] \<longrightarrow> pending w' = [])"
  apply (rule while_True_rule[OF assms(1), where P = "\<lambda>i r w w'. \<exists>evs. trace w' = trace w @ evs \<and>
           content w' mp @ pending w' = content w mp @ pending w @ concat (written evs) \<and>
           (r = Running \<and> pending w = [] \<longrightarrow> pending w' = [])"])
  using assms(2)
      apply (auto simp: opencv_body_def io_defs Let_def split: if_splits option.splits fobj.splits)
  done

lemma picamera2_while_flush:
  assumes "while_True n (picamera2_body e fd mp period t0 wd ht secs) i w = (r, w')"
  shows "\<exists>evs. trace w' = trace w @ evs \<and> opened evs = [] \<and>
           (\<forall>h. (\<forall>s h'. h \<noteq> EvWrite s # h') \<longrightarrow> hist_all flush_ok h evs)"
  apply (rule while_True_rule[OF assms(1), where P = "\<lambda>i r w w'. \<exists>evs. trace w' = trace w @ evs \<and> opened evs = [] \<and>
           (\<forall>h. (\<forall>s h'. h \<noteq> EvWrite s # h') \<longrightarrow> hist_all flush_ok h evs)"])
      apply (auto simp: picamera2_body_def io_defs flush_ok_def Let_def split: if_splits option.splits list.splits event.splits)
  done

lemma opencv_while_flush:
  assumes "while_True n (opencv_body e fd mp period t0 secs) i w = (r, w')"
  shows "\<exists>evs. trace w' = trace w @ evs \<and> opened evs = [] \<and>
           (\<forall>h. (\<forall>s h'. h \<noteq> EvWrite s # h') \<longrightarrow> hist_all flush_ok h evs)"
  apply (rule while_True_rule[OF assms(1), where P = "\<lambda>i r w w'. \<exists>evs. trace w' = trace w @ evs \<and> opened evs = [] \<and>
           (\<forall>h. (\<forall>s h'. h \<noteq> EvWrite s # h') \<longrightarrow> hist_all flush_ok h evs)"])
      apply (auto simp: opencv_body_def io_defs flush_ok_def Let_def split: if_splits option.splits list.splits event.splits)
  done

subsection \<open>Passes that always succeed\<close>

lemma picamera2_body_full:
  assumes "secs \<le> 0" "\<forall>k. \<not> sigint e k" "\<forall>k. shots e k \<noteq> None"
  shows "\<exists>w1 evs. picamera2_body e fd mp period t0 wd ht secs i w = (Ok (Next (i + 1)), w1) \<and>
           trace w1 = trace w @ evs \<and> length (saved evs) = 1"
  using assms by (auto simp: picamera2_body_def io_defs Let_def split: option.splits)

lemma opencv_body_full:
  assumes "secs \<le> 0" "\<forall>k. \<not> sigint e k" "\<forall>k. shots e k \<noteq> None"
  shows "\<exists>w1 evs. opencv_body e fd mp period t0 secs i w = (Ok (Next (i + 1)), w1) \<and>
           trace w1 = trace w @ evs \<and> length (saved evs) = 1"
  using assms by (auto simp: opencv_body_def io_defs Let_def split: option.splits)

section \<open>The loop functions\<close>

text \<open>
  A call of a loop function either fails during its set-up, having written nothing, or
  reaches the \<open>while\<close> loop in the state \<open>started\<close>; what follows the loop is the close of the
  file and, when the loop was left by \<open>break\<close>, the release of the camera.
\<close>

lemma setup_ok_7:
  "setup_ok e 7 rate out_dir w \<longleftrightarrow>
     \<not> sigint e (ops w) \<and> \<not> sigint e (Suc (ops w)) \<and> \<not> sigint e (Suc (Suc (ops w))) \<and>
     \<not> sigint e (Suc (Suc (Suc (ops w)))) \<and> \<not> sigint e (Suc (Suc (Suc (Suc (ops w))))) \<and>
     \<not> sigint e (Suc (Suc (Suc (Suc (Suc (ops w)))))) \<and>
     \<not> sigint e (Suc (Suc (Suc (Suc (Suc (Suc (ops w))))))) \<and>
     device_ok e \<and> rate \<noteq> 0 \<and>
     (\<forall>s. files w (path_join out_dir ''frames'') \<noteq> Some (File s)) \<and>
     files w (path_join out_dir ''meta.jsonl'') \<noteq> Some Dir"
  by (auto simp: setup_ok_def eval_nat_numeral All_less_Suc)

lemma no_sigint_setup_ok:
  assumes "\<forall>k. \<not> sigint e k" "device_ok e" "rate \<noteq> 0"
    "\<forall>s. files w (path_join out_dir ''frames'') \<noteq> Some (File s)"
    "files w (path_join out_dir ''meta.jsonl'') \<noteq> Some Dir"
  shows "setup_ok e k rate out_dir w"
  using assms by (simp add: setup_ok_def)

lemma started_simps [simp]:
  "trace (started k out_dir evs w) = trace w @ evs @ [EvOpen (path_join out_dir ''meta.jsonl'') ''a'']"
  "pending (started k out_dir evs w) = []"
  "content (started k out_dir evs w) (path_join out_dir ''meta.jsonl'') = content w (path_join out_dir ''meta.jsonl'')"
  by (simp_all add: started_def content_def)

subsection \<open>The direct-capture variant\<close>

lemma picamera2_loop_started:
  assumes "setup_ok e 7 rate out_dir w"
  shows "picamera2_loop e n out_dir rate wd ht secs w =
    (case while_True n
            (picamera2_body e (path_join out_dir ''frames'') (path_join out_dir ''meta.jsonl'')
               (1 / rate) (clock e (ops w + 5)) wd ht secs) 0
            (started 7 out_dir
               [EvMakedirs (path_join out_dir ''frames''), EvCamNew, EvCamCreateConfig wd ht,
                EvCamConfigure, EvCamStart, EvTime (clock e (ops w + 5))] w) of
       (Ok u, w2) \<Rightarrow> cam_stop e (f_close (path_join out_dir ''meta.jsonl'') w2)
     | (Raise x, w2) \<Rightarrow> (Raise x, f_close (path_join out_dir ''meta.jsonl'') w2)
     | (Running, w2) \<Rightarrow> (Running, w2))"
  using assms unfolding setup_ok_7 picamera2_loop_def started_def Let_def
  by (auto simp: io_defs eval_nat_numeral split: option.splits fobj.splits prod.splits res.splits)

lemma picamera2_loop_early:
  assumes "\<not> setup_ok e 7 rate out_dir w"
    and "picamera2_loop e n out_dir rate wd ht secs w = (r, w')"
  shows "\<exists>x pre. r = Raise x \<and> trace w' = trace w @ pre \<and> list_all is_setup pre \<and>
           content w' (path_join out_dir ''meta.jsonl'') = content w (path_join out_dir ''meta.jsonl'')"
  using assms unfolding setup_ok_7 picamera2_loop_def Let_def
  by (auto simp: io_defs split: if_splits option.splits fobj.splits)

lemma picamera2_loop_shape:
  assumes "picamera2_loop e n out_dir rate wd ht secs w = (r, w')"
  obtains (early) x pre where
      "r = Raise x" "trace w' = trace w @ pre" "list_all is_setup pre"
      "content w' (path_join out_dir ''meta.jsonl'') = content w (path_join out_dir ''meta.jsonl'')"
  | (started) r1 w1 w2 post where
      "setup_ok e 7 rate out_dir w"
      "w1 = started 7 out_dir
               [EvMakedirs (path_join out_dir ''frames''), EvCamNew, EvCamCreateConfig wd ht,
                EvCamConfigure, EvCamStart, EvTime (clock e (ops w + 5))] w"
      "while_True n
            (picamera2_body e (path_join out_dir ''frames'') (path_join out_dir ''meta.jsonl'')
               (1 / rate) (clock e (ops w + 5)) wd ht secs) 0 w1 = (r1, w2)"
      "trace w' = trace w2 @ post"
      "r1 = Running \<and> r = Running \<and> w' = w2 \<and> post = [] \<or>
       r1 \<noteq> Running \<and>
       content w' (path_join out_dir ''meta.jsonl'') =
         content w2 (path_join out_dir ''meta.jsonl'') @ pending w2 \<and>
       (post = [EvClose] \<and> (\<exists>x. r = Raise x) \<and> (r1 = r \<or> r1 = Ok ()) \<or>
        post = [EvClose, EvCamStop] \<and> r = Ok () \<and> r1 = Ok ())"
proof (cases "setup_ok e 7 rate out_dir w")
  case False
  from picamera2_loop_early[OF False assms] early show ?thesis by blast
next
  case True
  define w1 where "w1 = started 7 out_dir
               [EvMakedirs (path_join out_dir ''frames''), EvCamNew, EvCamCreateConfig wd ht,
                EvCamConfigure, EvCamStart, EvTime (clock e (ops w + 5))] w"
  obtain r1 w2 where wh: "while_True n
            (picamera2_body e (path_join out_dir ''frames'') (path_join out_dir ''meta.jsonl'')
               (1 / rate) (clock e (ops w + 5)) wd ht secs) 0 w1 = (r1, w2)"
    by (cases "while_True n
            (picamera2_body e (path_join out_dir ''frames'') (path_join out_dir ''meta.jsonl'')
               (1 / rate) (clock e (ops w + 5)) wd ht secs) 0 w1")
  from assms wh have fin: "(case r1 of
       Ok u \<Rightarrow> cam_stop e (f_close (path_join out_dir ''meta.jsonl'') w2)
     | Raise x \<Rightarrow> (Raise x, f_close (path_join out_dir ''meta.jsonl'') w2)
     | Running \<Rightarrow> (Running, w2)) = (r, w')"
    unfolding picamera2_loop_started[OF True] w1_def by simp
  show ?thesis
  proof (cases r1)
    case (Ok u)
    with fin show ?thesis
      by (intro started[OF True w1_def wh, of "if r = Ok () then [EvClose, EvCamStop] else [EvClose]"])
         (auto simp: cam_stop_def prim_def log_def f_close_def flushed_def content_def split: if_splits)
  next
    case (Raise x)
    with fin show ?thesis
      by (intro started[OF True w1_def wh, of "[EvClose]"])
         (auto simp: log_def f_close_def flushed_def content_def)
  next
    case Running
    with fin show ?thesis
      by (intro started[OF True w1_def wh, of "[]"]) auto
  qed
qed

lemma picamera2_loop_trace:
  assumes "picamera2_loop e n out_dir rate wd ht secs w = (r, w')"
  obtains (early) x pre where
      "r = Raise x" "trace w' = trace w @ pre" "list_all is_setup pre"
      "content w' (path_join out_dir ''meta.jsonl'') = content w (path_join out_dir ''meta.jsonl'')"
  | (started) r1 w1 w2 pre post where
      "rate \<noteq> 0"
      "while_True n
            (picamera2_body e (path_join out_dir ''frames'') (path_join out_dir ''meta.jsonl'')
               (1 / rate) (clock e (ops w + 5)) wd ht secs) 0 w1 = (r1, w2)"
      "list_all is_setup pre" "times pre = [clock e (ops w + 5)]"
      "trace w1 = trace w @ pre @ [EvOpen (path_join out_dir ''meta.jsonl'') ''a'']"
      "pending w1 = []"
      "content w1 (path_join out_dir ''meta.jsonl'') = content w (path_join out_dir ''meta.jsonl'')"
      "trace w' = trace w @ pre @ [EvOpen (path_join out_dir ''meta.jsonl'') ''a''] @ events w1 w2 @ post"
      "trace w2 = trace w1 @ events w1 w2"
      "r1 = Running \<and> r = Running \<and> w' = w2 \<and> post = [] \<or>
       r1 \<noteq> Running \<and>
       content w' (path_join out_dir ''meta.jsonl'') =
         content w2 (path_join out_dir ''meta.jsonl'') @ pending w2 \<and>
       (post = [EvClose] \<and> (\<exists>x. r = Raise x) \<and> (r1 = r \<or> r1 = Ok ()) \<or>
        post = [EvClose, EvCamStop] \<and> r = Ok () \<and> r1 = Ok ())"
  using assms
proof (cases rule: picamera2_loop_shape)
  case (early x pre)
  then show ?thesis using that(1) by blast
next
  case (started r1 w1 w2 post)
  from ex_events[OF picamera2_while_seq[OF started(3)]]
  have t2: "trace w2 = trace w1 @ events w1 w2" by simp
  show ?thesis
    apply (rule that(2)[OF _ started(3) _ _ _ _ _ _ t2 started(5),
      of "[EvMakedirs (path_join out_dir ''frames''), EvCamNew, EvCamCreateConfig wd ht,
                EvCamConfigure, EvCamStart, EvTime (clock e (ops w + 5))]"])
    using started(1,2,4) t2 by (simp_all add: setup_ok_def)
qed

lemma picamera2_loop_seq:
  assumes "picamera2_loop e n out_dir rate wd ht secs w = (r, w')"
  shows "\<exists>evs. trace w' = trace w @ evs \<and> seq_ok e (path_join out_dir ''frames'') 0 evs"
  using assms
proof (cases rule: picamera2_loop_trace)
  case (early x pre)
  then show ?thesis by (simp add: seq_ok_def setup_nothing)
next
  case (started r1 w1 w2 pre post)
  from ex_events[OF picamera2_while_seq[OF started(2)]]
  have X: "seq_ok e (path_join out_dir ''frames'') 0 (events w1 w2)" by simp
  from started(10) have post: "post = [] \<or> post = [EvClose] \<or> post = [EvClose, EvCamStop]" by auto
  show ?thesis using started(3,8) X post by (auto simp: seq_ok_def setup_nothing)
qed


lemma picamera2_loop_Ok:
  assumes "picamera2_loop e n out_dir rate wd ht secs w = (r, w')" and "r = Ok ()"
  shows "\<exists>evs. trace w' = trace w @ evs \<and> 0 < secs \<and> secs \<le> last (times evs) - hd (times evs)"
  using assms(1)
proof (cases rule: picamera2_loop_trace)
  case (early x pre)
  with assms(2) show ?thesis by simp
next
  case (started r1 w1 w2 pre post)
  from started(10) assms(2) have r1: "r1 = Ok ()" and post: "post = [EvClose, EvCamStop]" by auto
  from picamera2_while_Ok[OF started(2)] r1 obtain evs t where
    "trace w2 = trace w1 @ evs @ [EvTime t]" "0 < secs" "secs \<le> t - clock e (ops w + 5)" by auto
  with started(9) have "events w1 w2 = evs @ [EvTime t]" by simp
  with started(3,4,8) post \<open>0 < secs\<close> \<open>secs \<le> t - clock e (ops w + 5)\<close>
  show ?thesis by auto
qed

lemma picamera2_loop_sleep:
  assumes "picamera2_loop e n out_dir rate wd ht secs w = (r, w')"
  shows "\<exists>evs. trace w' = trace w @ evs \<and> hist_all (sleep_ok (1 / rate) cvtColor_RGB2BGR) [] evs \<and>
           kept cvtColor_RGB2BGR evs"
  using assms(1)
proof (cases rule: picamera2_loop_trace)
  case (early x pre)
  then show ?thesis by (simp add: setup_capture_ok setup_sleep_ok setup_flush_ok kept_def setup_nothing)
next
  case (started r1 w1 w2 pre post)
  from ex_events[OF picamera2_while_sleep[OF started(2)]]
  have X: "\<And>h. hist_all (sleep_ok (1 / rate) cvtColor_RGB2BGR) h (events w1 w2)" by simp
  from ex_events[OF picamera2_while_kept[OF started(2)]]
  have K: "kept cvtColor_RGB2BGR (events w1 w2)" by simp
  from started(10) have post: "post = [] \<or> post = [EvClose] \<or> post = [EvClose, EvCamStop]" by auto
  have "hist_all (sleep_ok (1 / rate) cvtColor_RGB2BGR) []
          (pre @ [EvOpen (path_join out_dir ''meta.jsonl'') ''a''] @ events w1 w2 @ post)"
    using started(3) X post by (auto simp: setup_capture_ok setup_sleep_ok setup_flush_ok sleep_ok_def)
  moreover have "kept cvtColor_RGB2BGR
          (pre @ [EvOpen (path_join out_dir ''meta.jsonl'') ''a''] @ events w1 w2 @ post)"
    using started(3) K post by (auto simp: kept_def setup_nothing)
  ultimately show ?thesis using started(8) by simp
qed

lemma picamera2_loop_sleeps:
  assumes "picamera2_loop e n out_dir rate wd ht secs w = (r, w')"
  shows "\<exists>evs. trace w' = trace w @ evs \<and> length (slept evs) \<le> length (written evs) \<and>
           length (written evs) \<le> Suc (length (slept evs))"
  using assms(1)
proof (cases rule: picamera2_loop_trace)
  case (early x pre)
  then show ?thesis by (simp add: setup_nothing)
next
  case (started r1 w1 w2 pre post)
  from ex_events[OF picamera2_while_sleeps[OF started(2)]]
  have X: "length (slept (events w1 w2)) \<le> length (written (events w1 w2))"
    "length (written (events w1 w2)) \<le> Suc (length (slept (events w1 w2)))" by simp_all
  from started(10) have post: "post = [] \<or> post = [EvClose] \<or> post = [EvClose, EvCamStop]" by auto
  show ?thesis using started(3,8) X post by (auto simp: setup_nothing)
qed

lemma picamera2_loop_content:
  assumes "picamera2_loop e n out_dir rate wd ht secs w = (r, w')"
  shows "\<exists>evs. trace w' = trace w @ evs \<and>
           content w' (path_join out_dir ''meta.jsonl'') =
             content w (path_join out_dir ''meta.jsonl'') @ concat (written evs) \<and>
           set (opened evs) \<subseteq> {(path_join out_dir ''meta.jsonl'', ''a'')} \<and>
           hist_all flush_ok [] evs"
  using assms(1)
proof (cases rule: picamera2_loop_trace)
  case (early x pre)
  then show ?thesis by (simp add: setup_capture_ok setup_sleep_ok setup_flush_ok setup_nothing)
next
  case (started r1 w1 w2 pre post)
  from ex_events[OF picamera2_while_content[OF started(2) png_ne_meta]] started(6,7)
  have C: "content w2 (path_join out_dir ''meta.jsonl'') @ pending w2 =
             content w (path_join out_dir ''meta.jsonl'') @ concat (written (events w1 w2))"
    and R: "r1 = Running \<Longrightarrow> pending w2 = []" by simp_all
  from ex_events[OF picamera2_while_flush[OF started(2)]]
  have F: "opened (events w1 w2) = []"
    "\<And>h. (\<forall>s h'. h \<noteq> EvWrite s # h') \<Longrightarrow> hist_all flush_ok h (events w1 w2)" by simp_all
  from started(10) have post: "post = [] \<or> post = [EvClose] \<or> post = [EvClose, EvCamStop]" by auto
  have 1: "content w' (path_join out_dir ''meta.jsonl'') =
             content w (path_join out_dir ''meta.jsonl'') @
             concat (written (pre @ [EvOpen (path_join out_dir ''meta.jsonl'') ''a''] @ events w1 w2 @ post))"
    using started(3,10) C R by (auto simp: setup_nothing)
  have 2: "set (opened (pre @ [EvOpen (path_join out_dir ''meta.jsonl'') ''a''] @ events w1 w2 @ post))
             \<subseteq> {(path_join out_dir ''meta.jsonl'', ''a'')}"
    using started(3) F(1) post by (auto simp: setup_nothing)
  have 3: "hist_all flush_ok []
             (pre @ [EvOpen (path_join out_dir ''meta.jsonl'') ''a''] @ events w1 w2 @ post)"
    using started(3) F(2) post by (auto simp: setup_capture_ok setup_sleep_ok setup_flush_ok flush_ok_def split: list.splits event.splits)
  show ?thesis using started(8) 1 2 3 by simp
qed

lemma picamera2_loop_live:
  assumes "secs \<le> 0" "\<forall>k. \<not> sigint e k" "\<forall>k. shots e k \<noteq> None" "device_ok e" "rate \<noteq> 0"
    "\<forall>s. files w (path_join out_dir ''frames'') \<noteq> Some (File s)"
    "files w (path_join out_dir ''meta.jsonl'') \<noteq> Some Dir"
  shows "\<exists>w'. picamera2_loop e n out_dir rate wd ht secs w = (Running, w') \<and>
           length (saved (events w w')) = n"
proof -
  let ?w1 = "started 7 out_dir
               [EvMakedirs (path_join out_dir ''frames''), EvCamNew, EvCamCreateConfig wd ht,
                EvCamConfigure, EvCamStart, EvTime (clock e (ops w + 5))] w"
  from while_True_live[of "picamera2_body e (path_join out_dir ''frames'') (path_join out_dir ''meta.jsonl'')
               (1 / rate) (clock e (ops w + 5)) wd ht secs" n 0 ?w1, OF picamera2_body_full[OF assms(1-3)]]
  obtain w' evs where w: "while_True n (picamera2_body e (path_join out_dir ''frames'') (path_join out_dir ''meta.jsonl'')
               (1 / rate) (clock e (ops w + 5)) wd ht secs) 0 ?w1 = (Running, w')"
    "trace w' = trace ?w1 @ evs" "length (saved evs) = n" by blast
  have "picamera2_loop e n out_dir rate wd ht secs w = (Running, w')"
    unfolding picamera2_loop_started[OF no_sigint_setup_ok[OF assms(2,4-7)]] using w(1) by simp
  moreover have "length (saved (events w w')) = n"
    using w(2,3) by (simp add: events_def)
  ultimately show ?thesis by blast
qed

lemma picamera2_loop_fps0:
  assumes "\<forall>k. \<not> sigint e k" "device_ok e"
    "\<forall>s. files w (path_join out_dir ''frames'') \<noteq> Some (File s)"
  shows "picamera2_loop e n out_dir 0 wd ht secs w =
           (Raise ZeroDivisionError,
            w\<lparr>ops := ops w + 5,
              files := (files w)(path_join out_dir ''frames'' \<mapsto> Dir),
              trace := trace w @ [EvMakedirs (path_join out_dir ''frames''), EvCamNew,
                                  EvCamCreateConfig wd ht,
                EvCamConfigure, EvCamStart]\<rparr>)"
  using assms unfolding picamera2_loop_def Let_def
  by (auto simp: io_defs split: option.splits fobj.splits)

subsection \<open>The generic-capture variant\<close>

lemma opencv_loop_started:
  assumes "setup_ok e 7 rate out_dir w"
  shows "opencv_loop e n out_dir rate dev wd ht secs w =
    (case while_True n
            (opencv_body e (path_join out_dir ''frames'') (path_join out_dir ''meta.jsonl'')
               (1 / rate) (clock e (ops w + 5)) secs) 0
            (started 7 out_dir
               [EvMakedirs (path_join out_dir ''frames''), EvCapOpen dev, EvCapIsOpened True,
                EvCapSet, EvCapSet, EvTime (clock e (ops w + 5))] w) of
       (Ok u, w2) \<Rightarrow> cap_release e (f_close (path_join out_dir ''meta.jsonl'') w2)
     | (Raise x, w2) \<Rightarrow> (Raise x, f_close (path_join out_dir ''meta.jsonl'') w2)
     | (Running, w2) \<Rightarrow> (Running, w2))"
  using assms unfolding setup_ok_7 opencv_loop_def started_def Let_def
  by (auto simp: io_defs eval_nat_numeral split: option.splits fobj.splits prod.splits res.splits)

lemma opencv_loop_early:
  assumes "\<not> setup_ok e 7 rate out_dir w"
    and "opencv_loop e n out_dir rate dev wd ht secs w = (r, w')"
  shows "\<exists>x pre. r = Raise x \<and> trace w' = trace w @ pre \<and> list_all is_setup pre \<and>
           content w' (path_join out_dir ''meta.jsonl'') = content w (path_join out_dir ''meta.jsonl'')"
  using assms unfolding setup_ok_7 opencv_loop_def Let_def
  by (auto simp: io_defs split: if_splits option.splits fobj.splits)

lemma opencv_loop_shape:
  assumes "opencv_loop e n out_dir rate dev wd ht secs w = (r, w')"
  obtains (early) x pre where
      "r = Raise x" "trace w' = trace w @ pre" "list_all is_setup pre"
      "content w' (path_join out_dir ''meta.jsonl'') = content w (path_join out_dir ''meta.jsonl'')"
  | (started) r1 w1 w2 post where
      "setup_ok e 7 rate out_dir w"
      "w1 = started 7 out_dir
               [EvMakedirs (path_join out_dir ''frames''), EvCapOpen dev, EvCapIsOpened True,
                EvCapSet, EvCapSet, EvTime (clock e (ops w + 5))] w"
      "while_True n
            (opencv_body e (path_join out_dir ''frames'') (path_join out_dir ''meta.jsonl'')
               (1 / rate) (clock e (ops w + 5)) secs) 0 w1 = (r1, w2)"
      "trace w' = trace w2 @ post"
      "r1 = Running \<and> r = Running \<and> w' = w2 \<and> post = [] \<or>
       r1 \<noteq> Running \<and>
       content w' (path_join out_dir ''meta.jsonl'') =
         content w2 (path_join out_dir ''meta.jsonl'') @ pending w2 \<and>
       (post = [EvClose] \<and> (\<exists>x. r = Raise x) \<and> (r1 = r \<or> r1 = Ok ()) \<or>
        post = [EvClose, EvCapRelease] \<and> r = Ok () \<and> r1 = Ok ())"
proof (cases "setup_ok e 7 rate out_dir w")
  case False
  from opencv_loop_early[OF False assms] early show ?thesis by blast
next
  case True
  define w1 where "w1 = started 7 out_dir
               [EvMakedirs (path_join out_dir ''frames''), EvCapOpen dev, EvCapIsOpened True,
                EvCapSet, EvCapSet, EvTime (clock e (ops w + 5))] w"
  obtain r1 w2 where wh: "while_True n
            (opencv_body e (path_join out_dir ''frames'') (path_join out_dir ''meta.jsonl'')
               (1 / rate) (clock e (ops w + 5)) secs) 0 w1 = (r1, w2)"
    by (cases "while_True n
            (opencv_body e (path_join out_dir ''frames'') (path_join out_dir ''meta.jsonl'')
               (1 / rate) (clock e (ops w + 5)) secs) 0 w1")
  from assms wh have fin: "(case r1 of
       Ok u \<Rightarrow> cap_release e (f_close (path_join out_dir ''meta.jsonl'') w2)
     | Raise x \<Rightarrow> (Raise x, f_close (path_join out_dir ''meta.jsonl'') w2)
     | Running \<Rightarrow> (Running, w2)) = (r, w')"
    unfolding opencv_loop_started[OF True] w1_def by simp
  show ?thesis
  proof (cases r1)
    case (Ok u)
    with fin show ?thesis
      by (intro started[OF True w1_def wh, of "if r = Ok () then [EvClose, EvCapRelease] else [EvClose]"])
         (auto simp: cap_release_def prim_def log_def f_close_def flushed_def content_def split: if_splits)
  next
    case (Raise x)
    with fin show ?thesis
      by (intro started[OF True w1_def wh, of "[EvClose]"])
         (auto simp: log_def f_close_def flushed_def content_def)
  next
    case Running
    with fin show ?thesis
      by (intro started[OF True w1_def wh, of "[]"]) auto
  qed
qed

lemma opencv_loop_trace:
  assumes "opencv_loop e n out_dir rate dev wd ht secs w = (r, w')"
  obtains (early) x pre where
      "r = Raise x" "trace w' = trace w @ pre" "list_all is_setup pre"
      "content w' (path_join out_dir ''meta.jsonl'') = content w (path_join out_dir ''meta.jsonl'')"
  | (started) r1 w1 w2 pre post where
      "rate \<noteq> 0"
      "while_True n
            (opencv_body e (path_join out_dir ''frames'') (path_join out_dir ''meta.jsonl'')
               (1 / rate) (clock e (ops w + 5)) secs) 0 w1 = (r1, w2)"
      "list_all is_setup pre" "times pre = [clock e (ops w + 5)]"
      "trace w1 = trace w @ pre @ [EvOpen (path_join out_dir ''meta.jsonl'') ''a'']"
      "pending w1 = []"
      "content w1 (path_join out_dir ''meta.jsonl'') = content w (path_join out_dir ''meta.jsonl'')"
      "trace w' = trace w @ pre @ [EvOpen (path_join out_dir ''meta.jsonl'') ''a''] @ events w1 w2 @ post"
      "trace w2 = trace w1 @ events w1 w2"
      "r1 = Running \<and> r = Running \<and> w' = w2 \<and> post = [] \<or>
       r1 \<noteq> Running \<and>
       content w' (path_join out_dir ''meta.jsonl'') =
         content w2 (path_join out_dir ''meta.jsonl'') @ pending w2 \<and>
       (post = [EvClose] \<and> (\<exists>x. r = Raise x) \<and> (r1 = r \<or> r1 = Ok ()) \<or>
        post = [EvClose, EvCapRelease] \<and> r = Ok () \<and> r1 = Ok ())"
  using assms
proof (cases rule: opencv_loop_shape)
  case (early x pre)
  then show ?thesis using that(1) by blast
next
  case (started r1 w1 w2 post)
  from ex_events[OF opencv_while_seq[OF started(3)]]
  have t2: "trace w2 = trace w1 @ events w1 w2" by simp
  show ?thesis
    apply (rule that(2)[OF _ started(3) _ _ _ _ _ _ t2 started(5),
      of "[EvMakedirs (path_join out_dir ''frames''), EvCapOpen dev, EvCapIsOpened True,
                EvCapSet, EvCapSet, EvTime (clock e (ops w + 5))]"])
    using started(1,2,4) t2 by (simp_all add: setup_ok_def)
qed

lemma opencv_loop_seq:
  assumes "opencv_loop e n out_dir rate dev wd ht secs w = (r, w')"
  shows "\<exists>evs. trace w' = trace w @ evs \<and> seq_ok e (path_join out_dir ''frames'') 0 evs"
  using assms
proof (cases rule: opencv_loop_trace)
  case (early x pre)
  then show ?thesis by (simp add: seq_ok_def setup_nothing)
next
  case (started r1 w1 w2 pre post)
  from ex_events[OF opencv_while_seq[OF started(2)]]
  have X: "seq_ok e (path_join out_dir ''frames'') 0 (events w1 w2)" by simp
  from started(10) have post: "post = [] \<or> post = [EvClose] \<or> post = [EvClose, EvCapRelease]" by auto
  show ?thesis using started(3,8) X post by (auto simp: seq_ok_def setup_nothing)
qed


lemma opencv_loop_Ok:
  assumes "opencv_loop e n out_dir rate dev wd ht secs w = (r, w')" and "r = Ok ()"
  shows "\<exists>evs. trace w' = trace w @ evs \<and>
           (EvCapture None \<in> set evs \<or> 0 < secs \<and> secs \<le> last (times evs) - hd (times evs))"
  using assms(1)
proof (cases rule: opencv_loop_trace)
  case (early x pre)
  with assms(2) show ?thesis by simp
next
  case (started r1 w1 w2 pre post)
  from started(10) assms(2) have r1: "r1 = Ok ()" and post: "post = [EvClose, EvCapRelease]" by auto
  from opencv_while_Ok[OF started(2)] r1 obtain evs where evs:
    "trace w2 = trace w1 @ evs"
    "EvCapture None \<in> set evs \<or> (\<exists>evs' t. evs = evs' @ [EvTime t] \<and> 0 < secs \<and> secs \<le> t - clock e (ops w + 5))"
    by auto
  with started(9) have "events w1 w2 = evs" by simp
  with started(3,4,8) post evs(2)
  show ?thesis by auto
qed

lemma opencv_loop_sleep:
  assumes "opencv_loop e n out_dir rate dev wd ht secs w = (r, w')"
  shows "\<exists>evs. trace w' = trace w @ evs \<and> hist_all (sleep_ok (1 / rate) (\<lambda>fr. fr)) [] evs \<and>
           kept (\<lambda>fr. fr) evs"
  using assms(1)
proof (cases rule: opencv_loop_trace)
  case (early x pre)
  then show ?thesis by (simp add: setup_capture_ok setup_sleep_ok setup_flush_ok kept_def setup_nothing)
next
  case (started r1 w1 w2 pre post)
  from ex_events[OF opencv_while_sleep[OF started(2)]]
  have X: "\<And>h. hist_all (sleep_ok (1 / rate) (\<lambda>fr. fr)) h (events w1 w2)" by simp
  from ex_events[OF opencv_while_kept[OF started(2)]]
  have K: "kept (\<lambda>fr. fr) (events w1 w2)" by simp
  from started(10) have post: "post = [] \<or> post = [EvClose] \<or> post = [EvClose, EvCapRelease]" by auto
  have "hist_all (sleep_ok (1 / rate) (\<lambda>fr. fr)) []
          (pre @ [EvOpen (path_join out_dir ''meta.jsonl'') ''a''] @ events w1 w2 @ post)"
    using started(3) X post by (auto simp: setup_capture_ok setup_sleep_ok setup_flush_ok sleep_ok_def)
  moreover have "kept (\<lambda>fr. fr)
          (pre @ [EvOpen (path_join out_dir ''meta.jsonl'') ''a''] @ events w1 w2 @ post)"
    using started(3) K post by (auto simp: kept_def setup_nothing)
  ultimately show ?thesis using started(8) by simp
qed

lemma opencv_loop_sleeps:
  assumes "opencv_loop e n out_dir rate dev wd ht secs w = (r, w')"
  shows "\<exists>evs. trace w' = trace w @ evs \<and> length (slept evs) \<le> length (written evs) \<and>
           length (written evs) \<le> Suc (length (slept evs))"
  using assms(1)
proof (cases rule: opencv_loop_trace)
  case (early x pre)
  then show ?thesis by (simp add: setup_nothing)
next
  case (started r1 w1 w2 pre post)
  from ex_events[OF opencv_while_sleeps[OF started(2)]]
  have X: "length (slept (events w1 w2)) \<le> length (written (events w1 w2))"
    "length (written (events w1 w2)) \<le> Suc (length (slept (events w1 w2)))" by simp_all
  from started(10) have post: "post = [] \<or> post = [EvClose] \<or> post = [EvClose, EvCapRelease]" by auto
  show ?thesis using started(3,8) X post by (auto simp: setup_nothing)
qed

lemma opencv_loop_content:
  assumes "opencv_loop e n out_dir rate dev wd ht secs w = (r, w')"
  shows "\<exists>evs. trace w' = trace w @ evs \<and>
           content w' (path_join out_dir ''meta.jsonl'') =
             content w (path_join out_dir ''meta.jsonl'') @ concat (written evs) \<and>
           set (opened evs) \<subseteq> {(path_join out_dir ''meta.jsonl'', ''a'')} \<and>
           hist_all flush_ok [] evs"
  using assms(1)
proof (cases rule: opencv_loop_trace)
  case (early x pre)
  then show ?thesis by (simp add: setup_capture_ok setup_sleep_ok setup_flush_ok setup_nothing)
next
  case (started r1 w1 w2 pre post)
  from ex_events[OF opencv_while_content[OF started(2) png_ne_meta]] started(6,7)
  have C: "content w2 (path_join out_dir ''meta.jsonl'') @ pending w2 =
             content w (path_join out_dir ''meta.jsonl'') @ concat (written (events w1 w2))"
    and R: "r1 = Running \<Longrightarrow> pending w2 = []" by simp_all
  from ex_events[OF opencv_while_flush[OF started(2)]]
  have F: "opened (events w1 w2) = []"
    "\<And>h. (\<forall>s h'. h \<noteq> EvWrite s # h') \<Longrightarrow> hist_all flush_ok h (events w1 w2)" by simp_all
  from started(10) have post: "post = [] \<or> post = [EvClose] \<or> post = [EvClose, EvCapRelease]" by auto
  have 1: "content w' (path_join out_dir ''meta.jsonl'') =
             content w (path_join out_dir ''meta.jsonl'') @
             concat (written (pre @ [EvOpen (path_join out_dir ''meta.jsonl'') ''a''] @ events w1 w2 @ post))"
    using started(3,10) C R by (auto simp: setup_nothing)
  have 2: "set (opened (pre @ [EvOpen (path_join out_dir ''meta.jsonl'') ''a''] @ events w1 w2 @ post))
             \<subseteq> {(path_join out_dir ''meta.jsonl'', ''a'')}"
    using started(3) F(1) post by (auto simp: setup_nothing)
  have 3: "hist_all flush_ok []
             (pre @ [EvOpen (path_join out_dir ''meta.jsonl'') ''a''] @ events w1 w2 @ post)"
    using started(3) F(2) post by (auto simp: setup_capture_ok setup_sleep_ok setup_flush_ok flush_ok_def split: list.splits event.splits)
  show ?thesis using started(8) 1 2 3 by simp
qed

lemma opencv_loop_live:
  assumes "secs \<le> 0" "\<forall>k. \<not> sigint e k" "\<forall>k. shots e k \<noteq> None" "device_ok e" "rate \<noteq> 0"
    "\<forall>s. files w (path_join out_dir ''frames'') \<noteq> Some (File s)"
    "files w (path_join out_dir ''meta.jsonl'') \<noteq> Some Dir"
  shows "\<exists>w'. opencv_loop e n out_dir rate dev wd ht secs w = (Running, w') \<and>
           length (saved (events w w')) = n"
proof -
  let ?w1 = "started 7 out_dir
               [EvMakedirs (path_join out_dir ''frames''), EvCapOpen dev, EvCapIsOpened True,
                EvCapSet, EvCapSet, EvTime (clock e (ops w + 5))] w"
  from while_True_live[of "opencv_body e (path_join out_dir ''frames'') (path_join out_dir ''meta.jsonl'')
               (1 / rate) (clock e (ops w + 5)) secs" n 0 ?w1, OF opencv_body_full[OF assms(1-3)]]
  obtain w' evs where w: "while_True n (opencv_body e (path_join out_dir ''frames'') (path_join out_dir ''meta.jsonl'')
               (1 / rate) (clock e (ops w + 5)) secs) 0 ?w1 = (Running, w')"
    "trace w' = trace ?w1 @ evs" "length (saved evs) = n" by blast
  have "opencv_loop e n out_dir rate dev wd ht secs w = (Running, w')"
    unfolding opencv_loop_started[OF no_sigint_setup_ok[OF assms(2,4-7)]] using w(1) by simp
  moreover have "length (saved (events w w')) = n"
    using w(2,3) by (simp add: events_def)
  ultimately show ?thesis by blast
qed

lemma opencv_loop_fps0:
  assumes "\<forall>k. \<not> sigint e k" "device_ok e"
    "\<forall>s. files w (path_join out_dir ''frames'') \<noteq> Some (File s)"
  shows "opencv_loop e n out_dir 0 dev wd ht secs w =
           (Raise ZeroDivisionError,
            w\<lparr>ops := ops w + 5,
              files := (files w)(path_join out_dir ''frames'' \<mapsto> Dir),
              trace := trace w @ [EvMakedirs (path_join out_dir ''frames''), EvCapOpen dev,
                                  EvCapIsOpened True, EvCapSet, EvCapSet]\<rparr>)"
  using assms unfolding opencv_loop_def Let_def
  by (auto simp: io_defs split: option.splits fobj.splits)

subsection \<open>Both variants\<close>

lemma loop_seq:
  assumes "evs = events w (snd (picamera2_loop e n out_dir rate wd ht secs w)) \<or>
           evs = events w (snd (opencv_loop e n out_dir rate dev wd ht secs w))"
  shows "seq_ok e (path_join out_dir ''frames'') 0 evs"
proof -
  obtain r1 w1 where p: "picamera2_loop e n out_dir rate wd ht secs w = (r1, w1)"
    by (cases "picamera2_loop e n out_dir rate wd ht secs w")
  obtain r2 w2 where c: "opencv_loop e n out_dir rate dev wd ht secs w = (r2, w2)"
    by (cases "opencv_loop e n out_dir rate dev wd ht secs w")
  from picamera2_loop_seq[OF p] opencv_loop_seq[OF c] assms p c show ?thesis
    by (auto simp: events_append)
qed

subsection \<open>The entry point without a camera\<close>

lemma main_no_camera:
  assumes "\<not> device_ok e" "\<forall>k. \<not> sigint e k"
    "\<forall>s. files w (out a) \<noteq> Some (File s)"
    "files w (path_join (out a) ''run_header.json'') \<noteq> Some Dir"
    "\<forall>s. files w (path_join (out a) ''frames'') \<noteq> Some (File s)"
  shows "main e n a w =
     (Raise (if backend a = BPicamera2 then CameraError
             else RuntimeError (''Could not open camera device '' @ str_int (device a))),
      w\<lparr>ops := ops w + (if backend a = BPicamera2 then 7 else 8),
        files := (files w)
          (out a \<mapsto> Dir,
           path_join (out a) ''run_header.json'' \<mapsto>
             File (dumps_indent e (run_header a (strftime e (clock e (ops w + 1))))),
           path_join (out a) ''frames'' \<mapsto> Dir),
        pending := [],
        trace := trace w @
          [EvMakedirs (out a), EvTime (clock e (ops w + 1)),
           EvOpen (path_join (out a) ''run_header.json'') ''w'',
           EvWrite (dumps_indent e (run_header a (strftime e (clock e (ops w + 1))))),
           EvClose,
           EvMakedirs (path_join (out a) ''frames'')] @
          (if backend a = BPicamera2 then [] else [EvCapOpen (device a), EvCapIsOpened False]) @
          [EvPrint (''Saved frames under: '' @ abspath e (out a))]\<rparr>)"
  using assms unfolding main_def Let_def try_except_finally_def picamera2_loop_def opencv_loop_def
  by (simp add: makedirs_ok open_w_ok ensure_dir_def io_bind_def ret_def raise_def now_str_def
        prim_def log_def with_open_def f_write_def f_close_def flushed_def content_def
        Picamera2_def VideoCapture_def cap_isOpened_def print_def)

section \<open>Concrete runs\<close>

text \<open>
  The runs of the example environment, executed call by call.
\<close>

lemma demo_env_simps [simp]:
  "clock demo_env k = real k / 100"
  "sigint demo_env k = False"
  "device_ok demo_env = True"
  "shots demo_env k = (if k < 2 then Some demo_frame else None)"
  "abspath demo_env p = ''/home/pi/'' @ p"
  "strftime demo_env t = ''19700101_000000''"
  "png demo_env fr = ''PNG''"
  by (simp_all add: demo_env_def)

lemma demo_dumps_simp [simp]: "dumps demo_env = demo_dumps"
  by (simp add: demo_env_def)

lemma demo_frame_simps [simp]: "rows demo_frame = 2" "cols demo_frame = 3"
  by (simp_all add: demo_frame_def)

lemma demo_paths [simp]:
  "path_join ''run'' ''frames'' = ''run/frames''"
  "path_join ''run'' ''meta.jsonl'' = ''run/meta.jsonl''"
  "path_join ''run'' ''run_header.json'' = ''run/run_header.json''"
  "path_join ''run/frames'' (fmt06d 0 @ ''.png'') = ''run/frames/000000.png''"
  "path_join ''run/frames'' (fmt06d 1 @ ''.png'') = ''run/frames/000001.png''"
  by code_simp+

lemmas run_defs = io_defs Let_def events_def line_def while_True_numeral

lemma demo_opencv_run:
  "(case opencv_loop demo_env 3 ''run'' 10 0 1280 720 0 demo_world of
      (r, w') \<Rightarrow> (r, trace w', content w' ''run/meta.jsonl'')) =
     (Ok (),
         [EvMakedirs ''run/frames'', EvCapOpen 0, EvCapIsOpened True, EvCapSet, EvCapSet,
          EvTime (1 / 20), EvOpen ''run/meta.jsonl'' ''a'',
          EvTime (7 / 100), EvCapture (Some demo_frame),
          EvImwrite ''run/frames/000000.png'' demo_frame,
          EvWrite (line demo_env 0 (7 / 100) 3 2), EvFlush, EvTime (3 / 25), EvSleep (1 / 20),
          EvTime (7 / 50), EvCapture (Some demo_frame),
          EvImwrite ''run/frames/000001.png'' demo_frame,
          EvWrite (line demo_env 1 (7 / 50) 3 2), EvFlush, EvTime (19 / 100), EvSleep (1 / 20),
          EvTime (21 / 100), EvCapture None, EvPrint ''Frame read failed, stopping.'',
          EvClose, EvCapRelease],
      line demo_env 0 (7 / 100) 3 2 @ line demo_env 1 (7 / 50) 3 2)"
  by (simp add: opencv_loop_def opencv_body_def run_defs demo_world_def)

lemma demo_opencv_written:
  "written (events demo_world (snd (opencv_loop demo_env 3 ''run'' 10 0 1280 720 0 demo_world))) =
     [line demo_env 0 (7 / 100) 3 2, line demo_env 1 (7 / 50) 3 2]"
  using demo_opencv_run by (simp add: case_prod_beta events_demo)


lemma demo_opencv_rerun:
  "(case opencv_loop demo_env 3 ''run'' 10 0 1280 720 0 demo_rerun_world of
      (r, w') \<Rightarrow> (r, written (events demo_rerun_world w'), content w' ''run/meta.jsonl'')) =
     (Ok (),
      [line demo_env 0 (7 / 100) 3 2, line demo_env 1 (7 / 50) 3 2],
      ''earlier 0'' @ nl @ ''earlier 1'' @ nl @
      line demo_env 0 (7 / 100) 3 2 @ line demo_env 1 (7 / 50) 3 2)"
  by (simp add: opencv_loop_def opencv_body_def run_defs demo_world_def demo_rerun_world_def)

lemma demo_main_opencv_interrupt:
  "(case main (demo_env\<lparr>sigint := (\<lambda>k. k = 20)\<rparr>) 5 (demo_args BOpencv 0) demo_world of
      (r, w') \<Rightarrow> (r, trace w')) =
     (Ok (),
      [EvMakedirs ''run'', EvTime (1 / 100), EvOpen ''run/run_header.json'' ''w'',
       EvWrite (dumps_indent demo_env (run_header (demo_args BOpencv 0) ''19700101_000000'')),
       EvClose,
       EvMakedirs ''run/frames'', EvCapOpen 0, EvCapIsOpened True, EvCapSet, EvCapSet,
       EvTime (9 / 100), EvOpen ''run/meta.jsonl'' ''a'',
       EvTime (11 / 100), EvCapture (Some demo_frame),
       EvImwrite ''run/frames/000000.png'' demo_frame,
       EvWrite (line demo_env 0 (11 / 100) 3 2), EvFlush, EvTime (4 / 25), EvSleep (1 / 20),
       EvTime (9 / 50), EvCapture (Some demo_frame),
       EvClose, EvPrint (nl @ ''Stopped by user (Ctrl+C).''),
       EvPrint ''Saved frames under: /home/pi/run''])"
  by (simp add: main_def try_except_finally_def opencv_loop_def opencv_body_def run_defs
        demo_world_def demo_args_def rec_dict_def)

lemma demo_main_picamera2_interrupt:
  "(case main (demo_env\<lparr>sigint := (\<lambda>k. k = 20)\<rparr>) 5 (demo_args BPicamera2 0) demo_world of
      (r, w') \<Rightarrow> (r, trace w')) =
     (Ok (),
      [EvMakedirs ''run'', EvTime (1 / 100), EvOpen ''run/run_header.json'' ''w'',
       EvWrite (dumps_indent demo_env (run_header (demo_args BPicamera2 0) ''19700101_000000'')),
       EvClose,
       EvMakedirs ''run/frames'', EvCamNew, EvCamCreateConfig 1280 720, EvCamConfigure,
       EvCamStart,
       EvTime (9 / 100), EvOpen ''run/meta.jsonl'' ''a'',
       EvTime (11 / 100), EvCapture (Some demo_frame),
       EvImwrite ''run/frames/000000.png'' (cvtColor_RGB2BGR demo_frame),
       EvWrite (line demo_env 0 (11 / 100) 1280 720), EvFlush, EvTime (4 / 25), EvSleep (1 / 20),
       EvTime (9 / 50), EvCapture (Some demo_frame),
       EvClose, EvPrint (nl @ ''Stopped by user (Ctrl+C).''),
       EvPrint ''Saved frames under: /home/pi/run''])"
  by (simp add: main_def try_except_finally_def picamera2_loop_def picamera2_body_def run_defs
        demo_world_def demo_args_def rec_dict_def)

lemma demo_main_picamera2_failure:
  "(case main demo_env 5 (demo_args BPicamera2 0) demo_world of
      (r, w') \<Rightarrow> (r, trace w', content w' ''run/meta.jsonl'')) =
     (Raise CameraError,
      [EvMakedirs ''run'', EvTime (1 / 100), EvOpen ''run/run_header.json'' ''w'',
       EvWrite (dumps_indent demo_env (run_header (demo_args BPicamera2 0) ''19700101_000000'')),
       EvClose,
       EvMakedirs ''run/frames'', EvCamNew, EvCamCreateConfig 1280 720, EvCamConfigure,
       EvCamStart,
       EvTime (9 / 100), EvOpen ''run/meta.jsonl'' ''a'',
       EvTime (11 / 100), EvCapture (Some demo_frame),
       EvImwrite ''run/frames/000000.png'' (cvtColor_RGB2BGR demo_frame),
       EvWrite (line demo_env 0 (11 / 100) 1280 720), EvFlush, EvTime (4 / 25), EvSleep (1 / 20),
       EvTime (9 / 50), EvCapture (Some demo_frame),
       EvImwrite ''run/frames/000001.png'' (cvtColor_RGB2BGR demo_frame),
       EvWrite (line demo_env 1 (9 / 50) 1280 720), EvFlush, EvTime (23 / 100), EvSleep (1 / 20),
       EvTime (1 / 4), EvCapture None, EvClose,
       EvPrint ''Saved frames under: /home/pi/run''],
      line demo_env 0 (11 / 100) 1280 720 @ line demo_env 1 (9 / 50) 1280 720)"
  by (simp add: main_def try_except_finally_def picamera2_loop_def picamera2_body_def run_defs
        demo_world_def demo_args_def)

lemma demo_main_opencv_failure:
  "(case main demo_env 5 (demo_args BOpencv 0) demo_world of
      (r, w') \<Rightarrow> (r, trace w', content w' ''run/meta.jsonl'')) =
     (Ok (),
      [EvMakedirs ''run'', EvTime (1 / 100), EvOpen ''run/run_header.json'' ''w'',
       EvWrite (dumps_indent demo_env (run_header (demo_args BOpencv 0) ''19700101_000000'')),
       EvClose,
       EvMakedirs ''run/frames'', EvCapOpen 0, EvCapIsOpened True, EvCapSet, EvCapSet,
       EvTime (9 / 100), EvOpen ''run/meta.jsonl'' ''a'',
       EvTime (11 / 100), EvCapture (Some demo_frame),
       EvImwrite ''run/frames/000000.png'' demo_frame,
       EvWrite (line demo_env 0 (11 / 100) 3 2), EvFlush, EvTime (4 / 25), EvSleep (1 / 20),
       EvTime (9 / 50), EvCapture (Some demo_frame),
       EvImwrite ''run/frames/000001.png'' demo_frame,
       EvWrite (line demo_env 1 (9 / 50) 3 2), EvFlush, EvTime (23 / 100), EvSleep (1 / 20),
       EvTime (1 / 4), EvCapture None, EvPrint ''Frame read failed, stopping.'', EvClose,
       EvCapRelease, EvPrint ''Saved frames under: /home/pi/run''],
      line demo_env 0 (11 / 100) 3 2 @ line demo_env 1 (9 / 50) 3 2)"
  by (simp add: main_def try_except_finally_def opencv_loop_def opencv_body_def run_defs
        demo_world_def demo_args_def)

section \<open>The claims\<close>

subsection \<open>C1: the fields of a metadata record\<close>

text \<open>
  Claim C1, as the code has it. In both variants every string handed to \<open>f.write\<close> is
  \<open>json.dumps\<close> of a dictionary with exactly the keys \<open>idx\<close>, \<open>file\<close>, \<open>timestamp_unix\<close>,
  \<open>timestamp_iso\<close>, \<open>width\<close>, \<open>height\<close>, followed by a newline: \<open>idx\<close> is a non-negative
  integer, \<open>file\<close> is a path under \<open>frames/\<close>, and \<open>timestamp_iso\<close> is \<open>isoformat\<close> of the value
  under \<open>timestamp_unix\<close>. The field that the claim calls \<open>index\<close> has the key \<open>idx\<close>.
\<close>

theorem C1_record_fields:
  assumes "evs = events w (snd (picamera2_loop e n out_dir rate wd ht secs w)) \<or>
           evs = events w (snd (opencv_loop e n out_dir rate dev wd ht secs w))"
  shows "\<forall>s\<in>set (written evs). \<exists>i fname t cw ch.
           0 \<le> i \<and>
           s = dumps e (JObj [(''idx'', JInt i),
                             (''file'', JStr (''frames/'' @ fname)),
                             (''timestamp_unix'', JFloat t),
                             (''timestamp_iso'', JStr (isoformat e t)),
                             (''width'', JInt cw),
                             (''height'', JInt ch)]) @ nl"
proof
  fix s assume "s \<in> set (written evs)"
  then obtain k where k: "k < length (written evs)" "s = written evs ! k"
    by (auto simp: in_set_conv_nth)
  from loop_seq[OF assms] k obtain t cw ch where "s = line e (int k) t cw ch"
    by (auto simp: seq_ok_def numbered_nth is_line_def)
  then show "\<exists>i fname t cw ch. 0 \<le> i \<and>
           s = dumps e (JObj [(''idx'', JInt i),
                             (''file'', JStr (''frames/'' @ fname)),
                             (''timestamp_unix'', JFloat t),
                             (''timestamp_iso'', JStr (isoformat e t)),
                             (''width'', JInt cw),
                             (''height'', JInt ch)]) @ nl"
    unfolding line_def rec_dict_def by (intro exI[of _ "int k"] exI conjI) (simp_all)
qed

text \<open>
  C1 at the example run: its second line is such a record.
\<close>

theorem C1_record_fields_witness:
  "\<exists>i fname t cw ch. 0 \<le> i \<and>
     written (events demo_world (snd (opencv_loop demo_env 3 ''run'' 10 0 1280 720 0 demo_world))) ! 1 =
       dumps demo_env (JObj [(''idx'', JInt i),
                             (''file'', JStr (''frames/'' @ fname)),
                             (''timestamp_unix'', JFloat t),
                             (''timestamp_iso'', JStr (isoformat demo_env t)),
                             (''width'', JInt cw),
                             (''height'', JInt ch)]) @ nl"
proof -
  let ?evs = "events demo_world (snd (opencv_loop demo_env 3 ''run'' 10 0 1280 720 0 demo_world))"
  have "written ?evs ! 1 \<in> set (written ?evs)"
    unfolding demo_opencv_written by simp
  with C1_record_fields[of ?evs demo_world demo_env 3 "''run''" 10 1280 720 0 0, OF disjI2[OF refl]]
  show ?thesis by blast
qed

text \<open>
  C1 as stated fails: the first line of the example run is the record with the key \<open>idx\<close>,
  and differs from the same record under the key \<open>index\<close>.
\<close>

theorem C1_counterexample:
  "written (events demo_world (snd (opencv_loop demo_env 3 ''run'' 10 0 1280 720 0 demo_world))) ! 0 =
     dumps demo_env (JObj [(''idx'', JInt 0),
                           (''file'', JStr ''frames/000000.png''),
                           (''timestamp_unix'', JFloat (7 / 100)),
                           (''timestamp_iso'', JStr (isoformat demo_env (7 / 100))),
                           (''width'', JInt 3),
                           (''height'', JInt 2)]) @ nl \<and>
   written (events demo_world (snd (opencv_loop demo_env 3 ''run'' 10 0 1280 720 0 demo_world))) ! 0 \<noteq>
     dumps demo_env (JObj [(''index'', JInt 0),
                           (''file'', JStr ''frames/000000.png''),
                           (''timestamp_unix'', JFloat (7 / 100)),
                           (''timestamp_iso'', JStr (isoformat demo_env (7 / 100))),
                           (''width'', JInt 3),
                           (''height'', JInt 2)]) @ nl"
  unfolding demo_opencv_written
  by (simp add: line_def rec_dict_def fmt06d_0 demo_dumps_def)

subsection \<open>C2: release of the camera\<close>

text \<open>
  Claim C2 does not hold of the code. An interrupt delivered inside the loop (here at call
  number 20 of the run, during the second pass) is caught by \<open>main\<close>, which returns normally;
  the camera was opened or started, and neither \<open>cap.release()\<close> nor \<open>cam.stop()\<close> has been
  called: both stand after the \<open>with\<close> block, which the exception leaves.
\<close>

theorem C2_camera_not_released_on_interrupt:
  "fst (main (demo_env\<lparr>sigint := (\<lambda>k. k = 20)\<rparr>) 5 (demo_args BOpencv 0) demo_world) = Ok () \<and>
   EvCapOpen 0 \<in>
     set (trace (snd (main (demo_env\<lparr>sigint := (\<lambda>k. k = 20)\<rparr>) 5 (demo_args BOpencv 0) demo_world))) \<and>
   EvCapRelease \<notin>
     set (trace (snd (main (demo_env\<lparr>sigint := (\<lambda>k. k = 20)\<rparr>) 5 (demo_args BOpencv 0) demo_world))) \<and>
   fst (main (demo_env\<lparr>sigint := (\<lambda>k. k = 20)\<rparr>) 5 (demo_args BPicamera2 0) demo_world) = Ok () \<and>
   EvCamStart \<in>
     set (trace (snd (main (demo_env\<lparr>sigint := (\<lambda>k. k = 20)\<rparr>) 5 (demo_args BPicamera2 0) demo_world))) \<and>
   EvCamStop \<notin>
     set (trace (snd (main (demo_env\<lparr>sigint := (\<lambda>k. k = 20)\<rparr>) 5 (demo_args BPicamera2 0) demo_world)))"
  using demo_main_opencv_interrupt demo_main_picamera2_interrupt
  by (simp add: case_prod_beta)

subsection \<open>C3: a camera that cannot be opened\<close>

text \<open>
  Claim C3, as the code has it. When the camera cannot be opened and nothing else goes
  wrong, \<open>main\<close> ends with the error of the backend; no image has been saved and the only file
  opened is \<open>run_header.json\<close>, so no metadata record has been written. By then the output
  directory, \<open>run_header.json\<close> and the frame directory have been created, and these are the
  only changes to the file system.
\<close>

theorem C3_camera_unavailable:
  assumes "\<not> device_ok e" and "\<forall>k. \<not> sigint e k"
    and "\<forall>s. files w (out a) \<noteq> Some (File s)"
    and "files w (path_join (out a) ''run_header.json'') \<noteq> Some Dir"
    and "\<forall>s. files w (path_join (out a) ''frames'') \<noteq> Some (File s)"
    and "main e n a w = (r, w')"
  shows "r = Raise (if backend a = BPicamera2 then CameraError
                    else RuntimeError (''Could not open camera device '' @ str_int (device a))) \<and>
         saved (events w w') = [] \<and>
         opened (events w w') = [(path_join (out a) ''run_header.json'', ''w'')] \<and>
         files w' = (files w)
           (out a \<mapsto> Dir,
            path_join (out a) ''run_header.json'' \<mapsto>
              File (dumps_indent e (run_header a (strftime e (clock e (ops w + 1))))),
            path_join (out a) ''frames'' \<mapsto> Dir)"
  using assms(6) unfolding main_no_camera[OF assms(1-5)]
  by (auto simp: events_def)

text \<open>
  C3 at the example run with an unavailable device.
\<close>

theorem C3_camera_unavailable_witness:
  "\<not> device_ok (demo_env\<lparr>device_ok := False\<rparr>) \<and>
   fst (main (demo_env\<lparr>device_ok := False\<rparr>) 5 (demo_args BOpencv 0) demo_world) =
     Raise (RuntimeError (''Could not open camera device '' @ str_int 0)) \<and>
   saved (events demo_world
     (snd (main (demo_env\<lparr>device_ok := False\<rparr>) 5 (demo_args BOpencv 0) demo_world))) = [] \<and>
   opened (events demo_world
     (snd (main (demo_env\<lparr>device_ok := False\<rparr>) 5 (demo_args BOpencv 0) demo_world))) =
     [(''run/run_header.json'', ''w'')]"
proof -
  let ?e = "demo_env\<lparr>device_ok := False\<rparr>"
  let ?run = "main ?e 5 (demo_args BOpencv 0) demo_world"
  have a: "\<not> device_ok ?e" "\<forall>k. \<not> sigint ?e k"
    "\<forall>s. files demo_world (out (demo_args BOpencv 0)) \<noteq> Some (File s)"
    "files demo_world (path_join (out (demo_args BOpencv 0)) ''run_header.json'') \<noteq> Some Dir"
    "\<forall>s. files demo_world (path_join (out (demo_args BOpencv 0)) ''frames'') \<noteq> Some (File s)"
    by (simp_all add: demo_world_def)
  have run: "?run = (fst ?run, snd ?run)" by simp
  from C3_camera_unavailable[OF a run] a(1)
  show ?thesis by (simp add: demo_args_def)
qed

text \<open>
  C3 as stated fails: when the error surfaces, the output directory holds
  \<open>run_header.json\<close> and the directory \<open>frames\<close>.
\<close>

theorem C3_counterexample:
  "fst (main (demo_env\<lparr>device_ok := False\<rparr>) 5 (demo_args BOpencv 0) demo_world) =
     Raise (RuntimeError ''Could not open camera device 0'') \<and>
   files (snd (main (demo_env\<lparr>device_ok := False\<rparr>) 5 (demo_args BOpencv 0) demo_world))
     ''run/run_header.json'' =
     Some (File (dumps_indent demo_env (run_header (demo_args BOpencv 0) ''19700101_000000''))) \<and>
   files (snd (main (demo_env\<lparr>device_ok := False\<rparr>) 5 (demo_args BOpencv 0) demo_world))
     ''run/frames'' = Some Dir"
proof -
  let ?e = "demo_env\<lparr>device_ok := False\<rparr>"
  have a: "\<not> device_ok ?e" "\<forall>k. \<not> sigint ?e k"
    "\<forall>s. files demo_world (out (demo_args BOpencv 0)) \<noteq> Some (File s)"
    "files demo_world (path_join (out (demo_args BOpencv 0)) ''run_header.json'') \<noteq> Some Dir"
    "\<forall>s. files demo_world (path_join (out (demo_args BOpencv 0)) ''frames'') \<noteq> Some (File s)"
    by (simp_all add: demo_world_def)
  have d: "str_int 0 = ''0''" by (simp add: str_int_def dec.simps)
  show ?thesis
    unfolding main_no_camera[OF a] by (simp add: demo_args_def d)
qed

subsection \<open>C4: indices and file names\<close>



subsection \<open>C5: the duration check\<close>



subsection \<open>C6: the sleep of a cycle\<close>

text \<open>
  Claim C6. In every run of either loop, each sleep is the last call of a complete cycle
  (clock reading \<open>t\<close>, successful capture, \<open>imwrite\<close> of the captured frame, \<open>write\<close>, \<open>flush\<close>,
  clock reading \<open>t2\<close>) and lasts \<open>max(0, 1/fps - (t2 - t))\<close>, which is 0 when the work of the
  cycle took the period or longer. The images saved are the frames captured, in order (the
  direct-capture variant converts them from RGB to BGR): no frame is skipped. Every record
  written is followed by its sleep, except the last one of a run that an interrupt ends
  before the sleep.
\<close>

theorem C6_rate_control:
  assumes "rate \<noteq> 0"
    and "evs = events w (snd (picamera2_loop e n out_dir rate wd ht secs w)) \<and>
           conv = cvtColor_RGB2BGR \<or>
         evs = events w (snd (opencv_loop e n out_dir rate dev wd ht secs w)) \<and>
           conv = (\<lambda>fr. fr)"
  shows "hist_all (sleep_ok (1 / rate) conv) [] evs \<and>
         kept conv evs \<and>
         length (slept evs) \<le> length (written evs) \<and>
         length (written evs) \<le> Suc (length (slept evs))"
proof -
  obtain r1 w1 where p: "picamera2_loop e n out_dir rate wd ht secs w = (r1, w1)"
    by (cases "picamera2_loop e n out_dir rate wd ht secs w")
  obtain r2 w2 where c: "opencv_loop e n out_dir rate dev wd ht secs w = (r2, w2)"
    by (cases "opencv_loop e n out_dir rate dev wd ht secs w")
  from assms(2) show ?thesis
  proof (elim disjE conjE)
    assume "evs = events w (snd (picamera2_loop e n out_dir rate wd ht secs w))"
      "conv = cvtColor_RGB2BGR"
    with picamera2_loop_sleep[OF p] picamera2_loop_sleeps[OF p] p show ?thesis
      by (auto simp: events_append)
  next
    assume "evs = events w (snd (opencv_loop e n out_dir rate dev wd ht secs w))"
      "conv = (\<lambda>fr. fr)"
    with opencv_loop_sleep[OF c] opencv_loop_sleeps[OF c] c show ?thesis
      by (auto simp: events_append)
  qed
qed

text \<open>
  C6 at the example run: two cycles of 50 ms work at 10 frames per second sleep 50 ms each.
\<close>

theorem C6_rate_control_witness:
  "(10::real) \<noteq> 0 \<and>
   slept (events demo_world (snd (opencv_loop demo_env 3 ''run'' 10 0 1280 720 0 demo_world))) =
     [1 / 20, 1 / 20] \<and>
   hist_all (sleep_ok (1 / 10) (\<lambda>fr. fr)) []
     (events demo_world (snd (opencv_loop demo_env 3 ''run'' 10 0 1280 720 0 demo_world))) \<and>
   kept (\<lambda>fr. fr)
     (events demo_world (snd (opencv_loop demo_env 3 ''run'' 10 0 1280 720 0 demo_world)))"
proof -
  let ?run = "opencv_loop demo_env 3 ''run'' 10 0 1280 720 0 demo_world"
  have ne: "(10::real) \<noteq> 0" by simp
  have sl: "slept (events demo_world (snd ?run)) = [1 / 20, 1 / 20]"
    using demo_opencv_run by (simp add: case_prod_beta events_def demo_world_def)
  have v: "events demo_world (snd ?run) =
             events demo_world (snd (picamera2_loop demo_env 3 ''run'' 10 1280 720 0 demo_world)) \<and>
             (\<lambda>fr. fr) = cvtColor_RGB2BGR \<or>
           events demo_world (snd ?run) = events demo_world (snd ?run) \<and>
             (\<lambda>fr::frame. fr) = (\<lambda>fr. fr)"
    by simp
  from C6_rate_control[OF ne v] sl
  show ?thesis by simp
qed

subsection \<open>C7: a failed capture\<close>

text \<open>
  Claim C7 does not hold of the direct-capture variant. When the third capture fails, the
  exception leaves \<open>picamera2_loop\<close> and \<open>main\<close>: no diagnostic is printed and \<open>cam.stop()\<close> is
  not called. The two records of the earlier cycles are in \<open>meta.jsonl\<close>. The
  generic-capture variant does what the claim says at the same input: it prints the
  diagnostic, releases the camera and returns normally.
\<close>

theorem C7_picamera2_capture_failure_propagates:
  "fst (main demo_env 5 (demo_args BPicamera2 0) demo_world) = Raise CameraError \<and>
   EvPrint ''Frame read failed, stopping.'' \<notin>
     set (trace (snd (main demo_env 5 (demo_args BPicamera2 0) demo_world))) \<and>
   EvCamStop \<notin> set (trace (snd (main demo_env 5 (demo_args BPicamera2 0) demo_world))) \<and>
   content (snd (main demo_env 5 (demo_args BPicamera2 0) demo_world)) ''run/meta.jsonl'' =
     line demo_env 0 (11 / 100) 1280 720 @ line demo_env 1 (9 / 50) 1280 720 \<and>
   fst (main demo_env 5 (demo_args BOpencv 0) demo_world) = Ok () \<and>
   EvPrint ''Frame read failed, stopping.'' \<in>
     set (trace (snd (main demo_env 5 (demo_args BOpencv 0) demo_world))) \<and>
   EvCapRelease \<in> set (trace (snd (main demo_env 5 (demo_args BOpencv 0) demo_world)))"
  using demo_main_picamera2_failure demo_main_opencv_failure
  by (simp add: case_prod_beta)

subsection \<open>C8: append mode and flush\<close>

text \<open>
  Claim C8. In every run of either loop, whatever ends it (and at every cycle boundary of a
  run still going), the content of \<open>meta.jsonl\<close> is its content before the run followed by
  the strings written in the run; the only file opened is \<open>meta.jsonl\<close>, in mode \<open>a\<close>; and the
  call that follows a \<open>write\<close> is always the \<open>flush\<close> (or, when an interrupt comes between
  them, the close of the file).
\<close>

theorem C8_append_and_flush:
  assumes "(r, w') = picamera2_loop e n out_dir rate wd ht secs w \<or>
           (r, w') = opencv_loop e n out_dir rate dev wd ht secs w"
    and "evs = events w w'"
    and "mp = path_join out_dir ''meta.jsonl''"
  shows "content w' mp = content w mp @ concat (written evs) \<and>
         set (opened evs) \<subseteq> {(mp, ''a'')} \<and>
         hist_all flush_ok [] evs"
  using assms(1)
proof
  assume p: "(r, w') = picamera2_loop e n out_dir rate wd ht secs w"
  from picamera2_loop_content[OF p[symmetric]] assms(2,3) show ?thesis
    by (auto simp: events_append)
next
  assume c: "(r, w') = opencv_loop e n out_dir rate dev wd ht secs w"
  from opencv_loop_content[OF c[symmetric]] assms(2,3) show ?thesis
    by (auto simp: events_append)
qed

text \<open>
  C8 at the example run into a directory whose \<open>meta.jsonl\<close> holds two earlier lines.
\<close>

theorem C8_append_and_flush_witness:
  "content (snd (opencv_loop demo_env 3 ''run'' 10 0 1280 720 0 demo_rerun_world)) ''run/meta.jsonl'' =
     (''earlier 0'' @ nl @ ''earlier 1'' @ nl) @
     concat [line demo_env 0 (7 / 100) 3 2, line demo_env 1 (7 / 50) 3 2] \<and>
   set (opened (events demo_rerun_world
          (snd (opencv_loop demo_env 3 ''run'' 10 0 1280 720 0 demo_rerun_world))))
     \<subseteq> {(''run/meta.jsonl'', ''a'')} \<and>
   hist_all flush_ok []
     (events demo_rerun_world (snd (opencv_loop demo_env 3 ''run'' 10 0 1280 720 0 demo_rerun_world)))"
proof -
  let ?run = "opencv_loop demo_env 3 ''run'' 10 0 1280 720 0 demo_rerun_world"
  have wr: "written (events demo_rerun_world (snd ?run)) =
      [line demo_env 0 (7 / 100) 3 2, line demo_env 1 (7 / 50) 3 2]"
    using demo_opencv_rerun by (simp add: case_prod_beta)
  have old: "content demo_rerun_world ''run/meta.jsonl'' = ''earlier 0'' @ nl @ ''earlier 1'' @ nl"
    by (simp add: demo_rerun_world_def demo_world_def content_def)
  have run: "(fst ?run, snd ?run) =
               picamera2_loop demo_env 3 ''run'' 10 1280 720 0 demo_rerun_world \<or>
             (fst ?run, snd ?run) = ?run"
    by simp
  from C8_append_and_flush[OF run refl refl] wr old
  show ?thesis by simp
qed

subsection \<open>C9: a duration that is not positive\<close>

text \<open>
  Claim C9. With \<open>seconds \<le> 0\<close> the direct-capture loop never returns normally, and the
  generic-capture loop returns normally only after a failed capture; and when the set-up
  succeeds, no capture fails and no interrupt arrives, both loops are still running after
  any number \<open>n\<close> of cycles, with \<open>n\<close> images saved.
\<close>

theorem C9_nonpositive_seconds_never_expire:
  assumes "secs \<le> 0"
  shows "fst (picamera2_loop e n out_dir rate wd ht secs w) \<noteq> Ok () \<and>
         (fst (opencv_loop e n out_dir rate dev wd ht secs w) = Ok () \<longrightarrow>
            EvCapture None \<in> set (events w (snd (opencv_loop e n out_dir rate dev wd ht secs w)))) \<and>
         ((\<forall>k. \<not> sigint e k) \<and> (\<forall>k. shots e k \<noteq> None) \<and> device_ok e \<and> rate \<noteq> 0 \<and>
          (\<forall>s. files w (path_join out_dir ''frames'') \<noteq> Some (File s)) \<and>
          files w (path_join out_dir ''meta.jsonl'') \<noteq> Some Dir \<longrightarrow>
            fst (picamera2_loop e n out_dir rate wd ht secs w) = Running \<and>
            length (saved (events w (snd (picamera2_loop e n out_dir rate wd ht secs w)))) = n \<and>
            fst (opencv_loop e n out_dir rate dev wd ht secs w) = Running \<and>
            length (saved (events w (snd (opencv_loop e n out_dir rate dev wd ht secs w)))) = n)"
proof (intro conjI impI)
  obtain r1 w1 where p: "picamera2_loop e n out_dir rate wd ht secs w = (r1, w1)"
    by (cases "picamera2_loop e n out_dir rate wd ht secs w")
  show "fst (picamera2_loop e n out_dir rate wd ht secs w) \<noteq> Ok ()"
  proof
    assume "fst (picamera2_loop e n out_dir rate wd ht secs w) = Ok ()"
    with p have "r1 = Ok ()" by simp
    from picamera2_loop_Ok[OF p this] assms show False by auto
  qed
next
  obtain r2 w2 where c: "opencv_loop e n out_dir rate dev wd ht secs w = (r2, w2)"
    by (cases "opencv_loop e n out_dir rate dev wd ht secs w")
  assume "fst (opencv_loop e n out_dir rate dev wd ht secs w) = Ok ()"
  with c have "r2 = Ok ()" by simp
  from opencv_loop_Ok[OF c this] assms c
  show "EvCapture None \<in> set (events w (snd (opencv_loop e n out_dir rate dev wd ht secs w)))"
    by (auto simp: events_append)
next
  assume a: "(\<forall>k. \<not> sigint e k) \<and> (\<forall>k. shots e k \<noteq> None) \<and> device_ok e \<and> rate \<noteq> 0 \<and>
          (\<forall>s. files w (path_join out_dir ''frames'') \<noteq> Some (File s)) \<and>
          files w (path_join out_dir ''meta.jsonl'') \<noteq> Some Dir"
  from picamera2_loop_live[OF assms, of e rate w out_dir n wd ht] a
  show "fst (picamera2_loop e n out_dir rate wd ht secs w) = Running"
    "length (saved (events w (snd (picamera2_loop e n out_dir rate wd ht secs w)))) = n"
    by auto
  from opencv_loop_live[OF assms, of e rate w out_dir n dev wd ht] a
  show "fst (opencv_loop e n out_dir rate dev wd ht secs w) = Running"
    "length (saved (events w (snd (opencv_loop e n out_dir rate dev wd ht secs w)))) = n"
    by auto
qed

text \<open>
  C9 at \<open>seconds = -1\<close> with a camera that never fails: still running after 1000 cycles.
\<close>

theorem C9_nonpositive_seconds_never_expire_witness:
  "(- 1::real) \<le> 0 \<and>
   fst (picamera2_loop (demo_env\<lparr>shots := (\<lambda>k. Some demo_frame)\<rparr>) 1000 ''run'' 10 1280 720 (- 1)
          demo_world) = Running \<and>
   length (saved (events demo_world
     (snd (picamera2_loop (demo_env\<lparr>shots := (\<lambda>k. Some demo_frame)\<rparr>) 1000 ''run'' 10 1280 720 (- 1)
            demo_world)))) = 1000 \<and>
   fst (opencv_loop (demo_env\<lparr>shots := (\<lambda>k. Some demo_frame)\<rparr>) 1000 ''run'' 10 0 1280 720 (- 1)
          demo_world) = Running \<and>
   length (saved (events demo_world
     (snd (opencv_loop (demo_env\<lparr>shots := (\<lambda>k. Some demo_frame)\<rparr>) 1000 ''run'' 10 0 1280 720 (- 1)
            demo_world)))) = 1000"
proof -
  have neg: "(- 1::real) \<le> 0" by simp
  have fs: "files demo_world = Map.empty" by (simp add: demo_world_def)
  from C9_nonpositive_seconds_never_expire[OF neg,
      where e = "demo_env\<lparr>shots := (\<lambda>k. Some demo_frame)\<rparr>" and n = 1000
      and out_dir = "''run''" and rate = 10 and wd = 1280 and ht = 720 and w = demo_world
      and dev = 0] fs
  show ?thesis by simp
qed

subsection \<open>C10: a frame rate of zero\<close>

text \<open>
  Claim C10. With \<open>fps = 0\<close>, a camera that opens and no interrupt, both loop functions
  raise \<open>ZeroDivisionError\<close> after the camera has been opened or started (and without
  releasing it); the only change to the file system is the frame directory, and nothing
  has been saved or written.
\<close>

theorem C10_zero_fps_division_error:
  assumes "\<forall>k. \<not> sigint e k" and "device_ok e"
    and "\<forall>s. files w (path_join out_dir ''frames'') \<noteq> Some (File s)"
  shows "picamera2_loop e n out_dir 0 wd ht secs w =
           (Raise ZeroDivisionError,
            w\<lparr>ops := ops w + 5,
              files := (files w)(path_join out_dir ''frames'' \<mapsto> Dir),
              trace := trace w @ [EvMakedirs (path_join out_dir ''frames''), EvCamNew,
                                  EvCamCreateConfig wd ht,
                EvCamConfigure, EvCamStart]\<rparr>) \<and>
         opencv_loop e n out_dir 0 dev wd ht secs w =
           (Raise ZeroDivisionError,
            w\<lparr>ops := ops w + 5,
              files := (files w)(path_join out_dir ''frames'' \<mapsto> Dir),
              trace := trace w @ [EvMakedirs (path_join out_dir ''frames''), EvCapOpen dev,
                                  EvCapIsOpened True, EvCapSet, EvCapSet]\<rparr>)"
  using picamera2_loop_fps0[OF assms] opencv_loop_fps0[OF assms] by simp

text \<open>
  C10 at the example environment.
\<close>

theorem C10_zero_fps_division_error_witness:
  "picamera2_loop demo_env 5 ''run'' 0 1280 720 0 demo_world =
     (Raise ZeroDivisionError,
      demo_world\<lparr>ops := 5, files := [''run/frames'' \<mapsto> Dir],
        trace := [EvMakedirs ''run/frames'', EvCamNew, EvCamCreateConfig 1280 720, EvCamConfigure,
                  EvCamStart]\<rparr>) \<and>
   opencv_loop demo_env 5 ''run'' 0 0 1280 720 0 demo_world =
     (Raise ZeroDivisionError,
      demo_world\<lparr>ops := 5, files := [''run/frames'' \<mapsto> Dir],
        trace := [EvMakedirs ''run/frames'', EvCapOpen 0, EvCapIsOpened True, EvCapSet, EvCapSet]\<rparr>)"
proof -
  have a: "\<forall>k. \<not> sigint demo_env k" "device_ok demo_env"
    "\<forall>s. files demo_world (path_join ''run'' ''frames'') \<noteq> Some (File s)"
    by (simp_all add: demo_world_def)
  from C10_zero_fps_division_error[OF a, where n = 5 and wd = 1280 and ht = 720 and secs = 0
      and dev = 0]
  show ?thesis by (simp add: demo_world_def)
qed

end
